theory Spec2Isabelle
  imports Complex_Main "HOL-Library.Finite_Map" "HOL-Library.Sublist"
begin

section \<open>Python values, exceptions and the process state\<close>

text \<open>
  The script \<^verbatim>\<open>BuildFW.py\<close> is Python 2. Its \<^verbatim>\<open>BuildState\<close> object is
  nothing but its attribute dictionary (\<^verbatim>\<open>self.__dict__\<close> is dumped to and merged from
  JSON), so the state is modelled as a finite map from attribute names to JSON values.
  HOL equality on \<open>json\<close> stands for Python's \<^verbatim>\<open>==\<close> on values produced by
  \<^verbatim>\<open>json.loads\<close>: objects are finite maps (no order), numbers are rationals (every
  finite float and every integer is one). Python's identification of \<^verbatim>\<open>True\<close> with 1 and
  the NaN float are outside the model.
\<close>

datatype json = JNull | JBool bool | JNum rat | JStr string | JArr "json list"
  | JObj "(string, json) fmap"

type_synonym pydict = "(string, json) fmap"

datatype error =
    KeyError string
  | IndexError
  | ValueError
  | TypeError
  | AttributeError
  | OSError
  | IOError
  | CalledProcessError int "string list"
  | Exception string
  | NotModelled

type_synonym 'a result = "error + 'a"

definition rbind :: "'a result \<Rightarrow> ('a \<Rightarrow> 'b result) \<Rightarrow> 'b result" where
  "rbind r k = (case r of Inl e \<Rightarrow> Inl e | Inr x \<Rightarrow> k x)"

text \<open>
  The file system: a table from canonical absolute paths (lists of components below the
  implicit root) to nodes. A regular file carries its modification time and what
  \<^verbatim>\<open>json.loads\<close> makes of its text: a JSON value, or nothing (\<open>Unparsable\<close>).
  Symbolic links carry their target string verbatim.
\<close>

type_synonym path = "string list"

datatype content = Json json | Unparsable

datatype node = File rat content | Dir rat | Link string

datatype level = INFO | WARNING | ERROR

text \<open>
  Everything one run of the script can read or change: the file system, the working
  directory, the clock, the external commands launched so far, the emitted log records
  (the logger level is \<^verbatim>\<open>logging.INFO\<close>, so \<^verbatim>\<open>log.debug\<close> emits nothing and is left out),
  and the two mutable objects of the process: the \<^verbatim>\<open>BuildState\<close> instance and the
  module global \<^verbatim>\<open>issued_warnings\<close>.
\<close>

record world =
  fs :: "(path \<times> node) list"
  cwd :: path
  now :: rat
  calls :: "string list list"
  log :: "(level \<times> string) list"
  build_state :: pydict
  issued_warnings :: bool

type_synonym 'a io = "world \<Rightarrow> 'a result \<times> world"

definition ret :: "'a \<Rightarrow> 'a io" where
  "ret x w = (Inr x, w)"

definition raise :: "error \<Rightarrow> 'a io" where
  "raise e w = (Inl e, w)"

definition lift :: "'a result \<Rightarrow> 'a io" where
  "lift r w = (r, w)"

definition bind :: "'a io \<Rightarrow> ('a \<Rightarrow> 'b io) \<Rightarrow> 'b io" where
  "bind m k w = (case m w of (Inl e, w') \<Rightarrow> (Inl e, w') | (Inr x, w') \<Rightarrow> k x w')"

definition gets :: "(world \<Rightarrow> 'a) \<Rightarrow> 'a io" where
  "gets f w = (Inr (f w), w)"

definition modify :: "(world \<Rightarrow> world) \<Rightarrow> unit io" where
  "modify f w = (Inr (), f w)"

definition when_io :: "bool \<Rightarrow> unit io \<Rightarrow> unit io" where
  "when_io b m = (if b then m else ret ())"

fun for_each :: "('a \<Rightarrow> unit io) \<Rightarrow> 'a list \<Rightarrow> unit io" where
  "for_each f [] = ret ()"
| "for_each f (x # xs) = bind (f x) (\<lambda>_. for_each f xs)"

fun map_io :: "('a \<Rightarrow> 'b io) \<Rightarrow> 'a list \<Rightarrow> 'b list io" where
  "map_io f [] = ret []"
| "map_io f (x # xs) = bind (f x) (\<lambda>y. bind (map_io f xs) (\<lambda>ys. ret (y # ys)))"

fun map_result :: "('a \<Rightarrow> 'b result) \<Rightarrow> 'a list \<Rightarrow> 'b list result" where
  "map_result f [] = Inr []"
| "map_result f (x # xs) = rbind (f x) (\<lambda>y. rbind (map_result f xs) (\<lambda>ys. Inr (y # ys)))"

definition log_info :: "string \<Rightarrow> unit io" where
  "log_info msg = modify (\<lambda>w. w\<lparr>log := log w @ [(INFO, msg)]\<rparr>)"

definition log_warn :: "string \<Rightarrow> unit io" where
  "log_warn msg = modify (\<lambda>w. w\<lparr>log := log w @ [(WARNING, msg)]\<rparr>)"

definition log_error :: "string \<Rightarrow> unit io" where
  "log_error msg = modify (\<lambda>w. w\<lparr>log := log w @ [(ERROR, msg)]\<rparr>)"

subsection \<open>The environment\<close>

text \<open>
  \<^verbatim>\<open>os.environ\<close>: an association list (its iteration order is the list's order);
  \<^verbatim>\<open>os.environ[k]\<close> raises \<^verbatim>\<open>KeyError\<close> on a missing key.
\<close>

type_synonym env = "(string \<times> string) list"

definition environ :: "env \<Rightarrow> string \<Rightarrow> string result" where
  "environ e k = (case map_of e k of None \<Rightarrow> Inl (KeyError k) | Some v \<Rightarrow> Inr v)"

subsection \<open>Strings\<close>

text \<open>
  \<open>find_sub sep s\<close> is the leftmost occurrence of \<open>sep\<close> in \<open>s\<close>: what precedes it
  and what follows it. \<open>py_split\<close> is \<^verbatim>\<open>s.split(sep)\<close> (Python raises \<^verbatim>\<open>ValueError\<close>
  for an empty separator; the script only splits at constant, non-empty separators).
\<close>

fun find_sub :: "string \<Rightarrow> string \<Rightarrow> (string \<times> string) option" where
  "find_sub sep [] = (if sep = [] then Some ([], []) else None)"
| "find_sub sep (c # cs) =
     (if prefix sep (c # cs) then Some ([], drop (length sep) (c # cs))
      else (case find_sub sep cs of None \<Rightarrow> None | Some (b, a) \<Rightarrow> Some (c # b, a)))"

lemma find_sub_shorter:
  "find_sub sep s = Some (b, a) \<Longrightarrow> sep \<noteq> [] \<Longrightarrow> length a < length s"
  by (induction s arbitrary: b) (auto split: if_splits option.splits)

function py_split :: "string \<Rightarrow> string \<Rightarrow> string list" where
  "py_split sep s =
     (if sep = [] then [s]
      else (case find_sub sep s of None \<Rightarrow> [s] | Some (b, a) \<Rightarrow> b # py_split sep a))"
  by pat_completeness auto
termination
  by (relation "measure (\<lambda>(sep, s). length s)") (auto dest: find_sub_shorter)

declare py_split.simps [simp del]

fun join :: "string \<Rightarrow> string list \<Rightarrow> string" where
  "join sep [] = []"
| "join sep [x] = x"
| "join sep (x # y # ys) = x @ sep @ join sep (y # ys)"

definition contains :: "string \<Rightarrow> string \<Rightarrow> bool" where
  "contains sub s = (find_sub sub s \<noteq> None)"

text \<open>\<^verbatim>\<open>s.replace(old, new)\<close>; with an empty \<open>old\<close> Python puts \<open>new\<close> around every character.\<close>

definition py_replace :: "string \<Rightarrow> string \<Rightarrow> string \<Rightarrow> string" where
  "py_replace old new s =
     (if old = [] then new @ concat (map (\<lambda>c. c # new) s)
      else join new (py_split old s))"

subsection \<open>Paths and the file system primitives\<close>

definition MAXSYMLINKS :: nat where
  "MAXSYMLINKS = 32"

definition is_abs :: "string \<Rightarrow> bool" where
  "is_abs s = (case s of [] \<Rightarrow> False | c # _ \<Rightarrow> c = CHR ''/'')"

definition split_slash :: "string \<Rightarrow> string list" where
  "split_slash s = py_split ''/'' s"

definition node_at :: "(path \<times> node) list \<Rightarrow> path \<Rightarrow> node option" where
  "node_at f p = (if p = [] then Some (Dir 0) else map_of f p)"

text \<open>
  Path resolution as the kernel does it: component by component from a canonical
  directory \<open>cur\<close>, \<^verbatim>\<open>..\<close> going to the physical parent, every symbolic link followed
  (also a final one), at most \<open>fuel\<close> links in all (\<^verbatim>\<open>ELOOP\<close> beyond). \<open>None\<close> is
  \<^verbatim>\<open>ENOENT\<close>, \<^verbatim>\<open>ENOTDIR\<close> or \<^verbatim>\<open>ELOOP\<close>.
\<close>

function resolve :: "(path \<times> node) list \<Rightarrow> nat \<Rightarrow> path \<Rightarrow> string list \<Rightarrow> path option" where
  "resolve f fuel cur [] = Some cur"
| "resolve f fuel cur (c # rest) =
     (if c = [] \<or> c = ''.'' then resolve f fuel cur rest
      else if c = ''..'' then resolve f fuel (butlast cur) rest
      else (case map_of f (cur @ [c]) of
              None \<Rightarrow> None
            | Some (File m d) \<Rightarrow> (if rest = [] then Some (cur @ [c]) else None)
            | Some (Dir m) \<Rightarrow> resolve f fuel (cur @ [c]) rest
            | Some (Link t) \<Rightarrow>
                (if fuel = 0 then None
                 else resolve f (fuel - 1) (if is_abs t then [] else cur)
                        (split_slash t @ rest))))"
  by pat_completeness auto
termination
  by (relation "measures [\<lambda>(f, fuel, cur, rest). fuel, \<lambda>(f, fuel, cur, rest). length rest]")
    auto

definition start_dir :: "world \<Rightarrow> string \<Rightarrow> path" where
  "start_dir w s = (if is_abs s then [] else cwd w)"

text \<open>
  \<open>stat_node\<close> follows a final link (\<^verbatim>\<open>stat\<close>); \<open>lstat_path\<close> does not (\<^verbatim>\<open>lstat\<close>),
  unless the path ends in a slash, \<^verbatim>\<open>.\<close> or \<^verbatim>\<open>..\<close>.
\<close>

definition stat_path :: "world \<Rightarrow> string \<Rightarrow> path option" where
  "stat_path w s =
     (if s = [] then None else resolve (fs w) MAXSYMLINKS (start_dir w s) (split_slash s))"

definition stat_node :: "world \<Rightarrow> string \<Rightarrow> node option" where
  "stat_node w s = (case stat_path w s of None \<Rightarrow> None | Some p \<Rightarrow> node_at (fs w) p)"

definition lstat_path :: "world \<Rightarrow> string \<Rightarrow> path option" where
  "lstat_path w s =
     (let comps = split_slash s in
      if s = [] then None
      else if last comps = [] \<or> last comps = ''.'' \<or> last comps = ''..'' then stat_path w s
      else (case resolve (fs w) MAXSYMLINKS (start_dir w s) (butlast comps) of
              None \<Rightarrow> None
            | Some d \<Rightarrow>
                (case node_at (fs w) d of
                   Some (Dir m) \<Rightarrow> Some (d @ [last comps])
                 | _ \<Rightarrow> None)))"

definition lstat_node :: "world \<Rightarrow> string \<Rightarrow> node option" where
  "lstat_node w s = (case lstat_path w s of None \<Rightarrow> None | Some p \<Rightarrow> node_at (fs w) p)"

definition os_path_exists :: "world \<Rightarrow> string \<Rightarrow> bool" where
  "os_path_exists w s = (stat_node w s \<noteq> None)"

definition os_path_isdir :: "world \<Rightarrow> string \<Rightarrow> bool" where
  "os_path_isdir w s = (case stat_node w s of Some (Dir m) \<Rightarrow> True | _ \<Rightarrow> False)"

definition os_path_isfile :: "world \<Rightarrow> string \<Rightarrow> bool" where
  "os_path_isfile w s = (case stat_node w s of Some (File m d) \<Rightarrow> True | _ \<Rightarrow> False)"

definition os_path_getmtime :: "world \<Rightarrow> string \<Rightarrow> rat result" where
  "os_path_getmtime w s =
     (case stat_node w s of
        Some (File m d) \<Rightarrow> Inr m
      | Some (Dir m) \<Rightarrow> Inr m
      | _ \<Rightarrow> Inl OSError)"

definition os_stat :: "string \<Rightarrow> unit io" where
  "os_stat s w = (if os_path_exists w s then (Inr (), w) else (Inl OSError, w))"

text \<open>\<^verbatim>\<open>os.path.dirname\<close> of \<^verbatim>\<open>posixpath\<close>, on the string.\<close>

definition rstrip_slash :: "string \<Rightarrow> string" where
  "rstrip_slash s = rev (dropWhile (\<lambda>c. c = CHR ''/'') (rev s))"

definition os_path_dirname :: "string \<Rightarrow> string" where
  "os_path_dirname p =
     (let head = rev (dropWhile (\<lambda>c. c \<noteq> CHR ''/'') (rev p)) in
      if head \<noteq> [] \<and> filter (\<lambda>c. c \<noteq> CHR ''/'') head \<noteq> [] then rstrip_slash head
      else head)"

text \<open>
  \<^verbatim>\<open>os.path.abspath\<close>: join with the working directory, then the purely lexical
  \<^verbatim>\<open>normpath\<close>. The result is given as its component list (absolute).
\<close>

fun normpath_comps :: "string list \<Rightarrow> string list \<Rightarrow> string list" where
  "normpath_comps acc [] = acc"
| "normpath_comps acc (c # cs) =
     (if c = [] \<or> c = ''.'' then normpath_comps acc cs
      else if c = ''..'' then normpath_comps (butlast acc) cs
      else normpath_comps (acc @ [c]) cs)"

definition os_path_abspath :: "world \<Rightarrow> string \<Rightarrow> string" where
  "os_path_abspath w s =
     ''/'' @ join ''/'' (normpath_comps (start_dir w s) (split_slash s))"

definition os_listdir :: "world \<Rightarrow> string \<Rightarrow> string list result" where
  "os_listdir w s =
     (case stat_path w s of
        None \<Rightarrow> Inl OSError
      | Some d \<Rightarrow>
          (case node_at (fs w) d of
             Some (Dir m) \<Rightarrow>
               Inr (map (\<lambda>(p, n). last p) (filter (\<lambda>(p, n). p \<noteq> [] \<and> butlast p = d) (fs w)))
           | _ \<Rightarrow> Inl OSError))"

text \<open>
  \<^verbatim>\<open>os.symlink(link_to, link_path)\<close>: fails with \<^verbatim>\<open>EEXIST\<close> when anything, also a dangling
  link, is at \<open>link_path\<close>, and with \<^verbatim>\<open>ENOENT\<close> when its directory is missing.
\<close>

definition os_symlink :: "string \<Rightarrow> string \<Rightarrow> unit io" where
  "os_symlink link_to link_path w =
     (case lstat_path w link_path of
        None \<Rightarrow> (Inl OSError, w)
      | Some p \<Rightarrow>
          (case node_at (fs w) p of
             Some n \<Rightarrow> (Inl OSError, w)
           | None \<Rightarrow> (Inr (), w\<lparr>fs := fs w @ [(p, Link link_to)]\<rparr>)))"

definition os_remove :: "string \<Rightarrow> unit io" where
  "os_remove s w =
     (case lstat_path w s of
        None \<Rightarrow> (Inl OSError, w)
      | Some p \<Rightarrow>
          (case map_of (fs w) p of
             Some (File m d) \<Rightarrow> (Inr (), w\<lparr>fs := filter (\<lambda>(q, n). q \<noteq> p) (fs w)\<rparr>)
           | Some (Link t) \<Rightarrow> (Inr (), w\<lparr>fs := filter (\<lambda>(q, n). q \<noteq> p) (fs w)\<rparr>)
           | _ \<Rightarrow> (Inl OSError, w)))"

text \<open>
  \<^verbatim>\<open>shutil.rmtree\<close> (Python 2.7): refuses a symbolic link, fails on anything that is not a
  directory, and otherwise removes the directory with everything below it.
\<close>

definition shutil_rmtree :: "string \<Rightarrow> unit io" where
  "shutil_rmtree s w =
     (case lstat_path w s of
        None \<Rightarrow> (Inl OSError, w)
      | Some p \<Rightarrow>
          (case map_of (fs w) p of
             Some (Dir m) \<Rightarrow> (Inr (), w\<lparr>fs := filter (\<lambda>(q, n). \<not> prefix p q) (fs w)\<rparr>)
           | _ \<Rightarrow> (Inl OSError, w)))"

text \<open>
  \<^verbatim>\<open>os.makedirs\<close>: creates the directory and every missing ancestor; \<^verbatim>\<open>OSError\<close> when the
  leaf exists already or something on the way is not a directory.
\<close>

fun mkdirs_from :: "(path \<times> node) list \<Rightarrow> rat \<Rightarrow> path \<Rightarrow> bool \<Rightarrow> string list
    \<Rightarrow> ((path \<times> node) list) result" where
  "mkdirs_from f t cur created [] = (if created then Inr f else Inl OSError)"
| "mkdirs_from f t cur created (c # rest) =
     (if c = [] \<or> c = ''.'' then mkdirs_from f t cur created rest
      else if c = ''..'' then mkdirs_from f t (butlast cur) False rest
      else (case map_of f (cur @ [c]) of
              None \<Rightarrow> mkdirs_from (f @ [(cur @ [c], Dir t)]) t (cur @ [c]) True rest
            | Some (Dir m) \<Rightarrow> mkdirs_from f t (cur @ [c]) False rest
            | Some (File m d) \<Rightarrow> Inl OSError
            | Some (Link l) \<Rightarrow>
                (case resolve f MAXSYMLINKS cur [c] of
                   None \<Rightarrow> Inl OSError
                 | Some q \<Rightarrow>
                     (case node_at f q of
                        Some (Dir m) \<Rightarrow> mkdirs_from f t q False rest
                      | _ \<Rightarrow> Inl OSError))))"

definition os_makedirs :: "string \<Rightarrow> unit io" where
  "os_makedirs s w =
     (if s = [] then (Inl OSError, w)
      else (case mkdirs_from (fs w) (now w) (start_dir w s) False (split_slash s) of
              Inl e \<Rightarrow> (Inl e, w)
            | Inr f \<Rightarrow> (Inr (), w\<lparr>fs := f\<rparr>)))"

text \<open>
  \<^verbatim>\<open>open(filename, "w")\<close> followed by a write: creates or truncates the file, stamped with
  the current time. Writing through a dangling symbolic link is not modelled.
\<close>

definition write_file :: "string \<Rightarrow> content \<Rightarrow> unit io" where
  "write_file s d w =
     (case lstat_path w s of
        None \<Rightarrow> (Inl IOError, w)
      | Some p \<Rightarrow>
          (case node_at (fs w) p of
             None \<Rightarrow> (Inr (), w\<lparr>fs := fs w @ [(p, File (now w) d)]\<rparr>)
           | Some (File m d') \<Rightarrow> (Inr (), w\<lparr>fs := AList.update p (File (now w) d) (fs w)\<rparr>)
           | Some (Dir m) \<Rightarrow> (Inl IOError, w)
           | Some (Link t) \<Rightarrow>
               (case stat_path w s of
                  None \<Rightarrow> (Inl NotModelled, w)
                | Some q \<Rightarrow>
                    (case node_at (fs w) q of
                       Some (File m d') \<Rightarrow>
                         (Inr (), w\<lparr>fs := AList.update q (File (now w) d) (fs w)\<rparr>)
                     | _ \<Rightarrow> (Inl IOError, w)))))"

text \<open>\<^verbatim>\<open>open(filename, "r").read()\<close>: the content of a regular file, \<^verbatim>\<open>IOError\<close> otherwise.\<close>

definition read_file :: "string \<Rightarrow> content io" where
  "read_file s w =
     (case stat_node w s of
        Some (File m d) \<Rightarrow> (Inr d, w)
      | _ \<Rightarrow> (Inl IOError, w))"

definition json_loads :: "content \<Rightarrow> json result" where
  "json_loads d = (case d of Json j \<Rightarrow> Inr j | Unparsable \<Rightarrow> Inl ValueError)"

section \<open>BuildState\<close>

text \<open>Attribute access, iteration and \<^verbatim>\<open>%s\<close> formatting on JSON values.\<close>

definition getattr :: "pydict \<Rightarrow> string \<Rightarrow> json result" where
  "getattr d k = (case fmlookup d k of None \<Rightarrow> Inl AttributeError | Some v \<Rightarrow> Inr v)"

text \<open>
  \<^verbatim>\<open>for x in v\<close>: a list gives its items, a string its characters, a number, a Boolean or
  \<^verbatim>\<open>None\<close> raises \<^verbatim>\<open>TypeError\<close>. The key order of a dictionary is unspecified and not modelled.
\<close>

definition py_iter :: "json \<Rightarrow> json list result" where
  "py_iter v =
     (case v of
        JArr xs \<Rightarrow> Inr xs
      | JStr s \<Rightarrow> Inr (map (\<lambda>c. JStr [c]) s)
      | JObj m \<Rightarrow> Inl NotModelled
      | _ \<Rightarrow> Inl TypeError)"

text \<open>
  \<^verbatim>\<open>"%s" % v\<close>: a string is itself; the \<^verbatim>\<open>repr\<close> of numbers and containers is not modelled.
\<close>

definition py_format_s :: "json \<Rightarrow> string result" where
  "py_format_s v =
     (case v of
        JStr s \<Rightarrow> Inr s
      | JNull \<Rightarrow> Inr ''None''
      | JBool b \<Rightarrow> Inr (if b then ''True'' else ''False'')
      | _ \<Rightarrow> Inl NotModelled)"

text \<open>\<^verbatim>\<open>BuildState.reset\<close> (lines 105 to 112): seven attribute assignments on \<^verbatim>\<open>self\<close>.\<close>

definition reset_dict :: "string \<Rightarrow> pydict \<Rightarrow> pydict" where
  "reset_dict supported self =
     fmupd ''slave_built_embedded_fw_path'' JNull
       (fmupd ''slave_built_fw_path'' JNull
         (fmupd ''slave_linked_archive_paths'' (JArr [])
           (fmupd ''slave_architectures'' (JArr [])
             (fmupd ''slave_platform'' JNull
               (fmupd ''last_completion'' (JNum 0)
                 (fmupd ''platforms'' (JArr (map JStr (py_split '' '' supported))) self))))))"

definition BuildState_reset :: "env \<Rightarrow> unit io" where
  "BuildState_reset e =
     bind (lift (environ e ''SUPPORTED_PLATFORMS'')) (\<lambda>supported.
       modify (\<lambda>w. w\<lparr>build_state := reset_dict supported (build_state w)\<rparr>))"

text \<open>\<^verbatim>\<open>BuildState.set_slave_properties\<close> (lines 114 to 122).\<close>

definition BuildState_set_slave_properties ::
    "env \<Rightarrow> string list \<Rightarrow> string list \<Rightarrow> string \<Rightarrow> string \<Rightarrow> unit io" where
  "BuildState_set_slave_properties e architectures linked_archive_paths built_fw_path
       built_embedded_fw_path =
     bind (lift (environ e ''PLATFORM_NAME'')) (\<lambda>platform.
       modify (\<lambda>w. w\<lparr>build_state :=
         fmupd ''slave_built_embedded_fw_path'' (JStr built_embedded_fw_path)
           (fmupd ''slave_built_fw_path'' (JStr built_fw_path)
             (fmupd ''slave_linked_archive_paths'' (JArr (map JStr linked_archive_paths))
               (fmupd ''slave_architectures'' (JArr (map JStr architectures))
                 (fmupd ''slave_platform'' (JStr platform) (build_state w)))))\<rparr>))"

text \<open>\<^verbatim>\<open>BuildState.get_platform_path\<close> (lines 124 to 129).\<close>

definition BuildState_get_platform_path :: "env \<Rightarrow> json \<Rightarrow> string result" where
  "BuildState_get_platform_path e platform =
     rbind (environ e ''PROJECT_TEMP_DIR'') (\<lambda>temp_dir.
     rbind (environ e ''CONFIGURATION'') (\<lambda>configuration.
     rbind (environ e ''PRODUCT_NAME'') (\<lambda>product.
     rbind (environ e ''CURRENT_VARIANT'') (\<lambda>variant.
     rbind (py_format_s platform) (\<lambda>plat.
       Inr (temp_dir @ ''/'' @ configuration @ ''-'' @ plat @ ''/'' @ product
            @ ''.build/Objects-'' @ variant @ ''/ufw_build_state.json''))))))"

text \<open>
  \<^verbatim>\<open>BuildState.load_from_json\<close> (lines 145 to 149). Python's \<^verbatim>\<open>None\<close> for a missing file is
  \<open>JNull\<close>, which is also what a file holding \<^verbatim>\<open>null\<close> loads as. Nothing catches the
  \<^verbatim>\<open>IOError\<close> of \<^verbatim>\<open>open\<close> or the \<^verbatim>\<open>ValueError\<close> of \<^verbatim>\<open>json.loads\<close>.
\<close>

definition BuildState_load_from_json :: "string \<Rightarrow> json io" where
  "BuildState_load_from_json filename =
     bind (gets (\<lambda>w. os_path_exists w filename)) (\<lambda>ex.
       if ex then bind (read_file filename) (\<lambda>d. lift (json_loads d))
       else ret JNull)"

text \<open>\<^verbatim>\<open>BuildState.save_to_json\<close> (lines 151 to 156).\<close>

definition BuildState_save_to_json :: "string \<Rightarrow> unit io" where
  "BuildState_save_to_json filename =
     (let parent = os_path_dirname filename in
      bind (gets (\<lambda>w. os_path_isdir w parent)) (\<lambda>isd.
      bind (when_io (\<not> isd) (os_makedirs parent)) (\<lambda>_.
      bind (gets build_state) (\<lambda>self.
        write_file filename (Json (JObj self))))))"

text \<open>\<^verbatim>\<open>BuildState.persist\<close> (lines 131 to 133).\<close>

definition BuildState_persist :: "env \<Rightarrow> unit io" where
  "BuildState_persist e =
     bind (gets build_state) (\<lambda>self.
     bind (lift (rbind (getattr self ''platforms'') py_iter)) (\<lambda>platforms.
       for_each (\<lambda>platform.
         bind (lift (BuildState_get_platform_path e platform)) BuildState_save_to_json)
         platforms))"

text \<open>
  \<^verbatim>\<open>BuildState.reload\<close> (lines 135 to 143); \<open>load_dicts\<close> is the list \<^verbatim>\<open>dicts\<close> of line
  137. \<^verbatim>\<open>dicts[1:] == dicts[:-1]\<close> compares the list without its first element with the list
  without its last; \<^verbatim>\<open>dicts[0]\<close> raises \<^verbatim>\<open>IndexError\<close> on an empty list;
  \<^verbatim>\<open>dicts[0].items()\<close> raises \<^verbatim>\<open>AttributeError\<close> unless the loaded value is a dictionary.
  The state is reset when \<^verbatim>\<open>not dicts[1:] == dicts[:-1] or dicts[0] is None\<close>, that is unless
  the lists are equal and \<^verbatim>\<open>dicts[0]\<close> is not \<^verbatim>\<open>None\<close>. The merge lets the loaded entries
  win.
\<close>

definition load_dicts :: "env \<Rightarrow> json list io" where
  "load_dicts e =
     bind (gets build_state) (\<lambda>self.
     bind (lift (rbind (getattr self ''platforms'') py_iter)) (\<lambda>platforms.
       map_io (\<lambda>platform.
         bind (lift (BuildState_get_platform_path e platform)) BuildState_load_from_json)
         platforms))"

definition BuildState_reload :: "env \<Rightarrow> unit io" where
  "BuildState_reload e =
     bind (BuildState_reset e) (\<lambda>_.
     bind (load_dicts e) (\<lambda>dicts.
       (case dicts of
          [] \<Rightarrow> raise IndexError
        | d0 # ds \<Rightarrow>
            if ds = butlast dicts \<and> d0 \<noteq> JNull then
              (case d0 of
                 JObj loaded \<Rightarrow>
                   modify (\<lambda>w. w\<lparr>build_state := fmadd (build_state w) loaded\<rparr>)
               | _ \<Rightarrow> raise AttributeError)
            else BuildState_reset e)))"

text \<open>\<^verbatim>\<open>BuildState.__init__\<close> (lines 101 to 103), on a new object with no attributes.\<close>

definition BuildState_init :: "env \<Rightarrow> unit io" where
  "BuildState_init e =
     bind (lift (environ e ''SUPPORTED_PLATFORMS'')) (\<lambda>supported.
     bind (modify (\<lambda>w. w\<lparr>build_state :=
             fmupd ''platforms'' (JArr (map JStr (py_split '' '' supported))) fmempty\<rparr>)) (\<lambda>_.
       BuildState_reload e))"

section \<open>External commands\<close>

text \<open>
  What an external program (\<^verbatim>\<open>libtool\<close>, \<^verbatim>\<open>xcodebuild\<close> and through it the slave run of
  this script) does is not in the source: it is a parameter \<open>ext\<close>, which maps the
  command line and the world to an exit code with the combined output, or to the
  exception of \<^verbatim>\<open>Popen\<close>, and a new world. A child process can change the file system and
  let time pass; it cannot touch this process's objects, log or working directory, and
  the launch is recorded in \<open>calls\<close>.
\<close>

type_synonym ext = "string list \<Rightarrow> (int \<times> string) io"

definition popen :: "ext \<Rightarrow> string list \<Rightarrow> (int \<times> string) io" where
  "popen x cmd w =
     (case x cmd w of
        (r, w') \<Rightarrow> (r, w\<lparr>fs := fs w', now := now w', calls := calls w @ [cmd]\<rparr>))"

text \<open>\<^verbatim>\<open>print_and_call\<close> (lines 405 to 410).\<close>

definition print_and_call :: "ext \<Rightarrow> string list \<Rightarrow> unit io" where
  "print_and_call x cmd =
     bind (log_info (''Cmd '' @ join '' '' cmd)) (\<lambda>_.
     bind (popen x cmd) (\<lambda>(returncode, out).
     bind (log_info out) (\<lambda>_.
       if returncode \<noteq> 0 then raise (CalledProcessError returncode cmd) else ret ())))"

text \<open>
  \<^verbatim>\<open>print_and_call_slave_build\<close> (lines 415 to 425); \<open>slave_build_result\<close> is what lines
  418 to 422 make of the captured output.
\<close>

definition separator :: string where
  "separator = ''=== BUILD NATIVE TARGET ''"

definition slave_build_result :: "string \<Rightarrow> string" where
  "slave_build_result out =
     (let result = py_split separator out in
      if length result = 1 then result ! 0 else separator @ result ! 1)"

definition print_and_call_slave_build :: "ext \<Rightarrow> string list \<Rightarrow> string \<Rightarrow> unit io" where
  "print_and_call_slave_build x cmd other_platform =
     bind (popen x cmd) (\<lambda>(returncode, out).
     bind (log_info (''Cmd '' @ join '' '' cmd @ [CHR 0x0A] @ slave_build_result out)) (\<lambda>_.
       if returncode \<noteq> 0 then raise (CalledProcessError returncode cmd) else ret ()))"

text \<open>\<^verbatim>\<open>issue_warning\<close> (lines 427 to 430).\<close>

definition issue_warning :: "string \<Rightarrow> unit io" where
  "issue_warning msg =
     bind (modify (\<lambda>w. w\<lparr>issued_warnings := True\<rparr>)) (\<lambda>_. log_warn msg)"

section \<open>Configuration and project\<close>

text \<open>
  The configuration constants of lines 10 to 63 (the log level is fixed at
  \<^verbatim>\<open>logging.INFO\<close>). \<open>config_deep_header_top\<close> is \<^verbatim>\<open>None\<close> or a string.
\<close>

record config =
  config_deep_header_hierarchy :: bool
  config_deep_header_top :: "string option"
  config_warn_derived_data :: bool
  config_warn_no_public_headers :: bool
  config_fail_on_warnings :: bool

text \<open>
  A file reference of the parsed Xcode project, with the two entries the script reads.
  The parsed project itself (lines 164 to 169 and 192 to 248: \<^verbatim>\<open>plutil\<close>, the target and
  its build phases) is an input: the four lists of file references of the target.
\<close>

record fileref =
  fullPath :: "string list"
  fileType :: string

record project_data =
  pd_public_headers :: "fileref list"
  pd_static_libraries :: "fileref list"
  pd_static_frameworks :: "fileref list"
  pd_compilable_sources :: "fileref list"

record Project =
  public_headers :: "fileref list"
  static_libraries :: "fileref list"
  static_frameworks :: "fileref list"
  compilable_sources :: "fileref list"
  header_paths :: "string list list"
  headers_dir :: string
  libtool_path :: string
  project_filename :: string
  local_exe_path :: string
  local_architectures :: "string list"
  local_built_fw_path :: string
  local_built_embedded_fw_path :: string
  local_linked_archive_paths :: "string list"
  local_platform :: string
  other_platform :: string
  sdk_version :: string

text \<open>
  \<^verbatim>\<open>os.path.splitext(p)[0]\<close>: \<open>p\<close> without the extension of its last component; leading
  dots of that component do not start an extension.
\<close>

definition splitext_root :: "string \<Rightarrow> string" where
  "splitext_root p =
     (let rb = takeWhile (\<lambda>c. c \<noteq> CHR ''/'') (rev p);
          dir = take (length p - length rb) p
      in if CHR ''.'' \<in> set rb then
           (let stem = rev (tl (dropWhile (\<lambda>c. c \<noteq> CHR ''.'') rb))
            in if filter (\<lambda>c. c \<noteq> CHR ''.'') stem \<noteq> [] then dir @ stem else p)
         else p)"

text \<open>\<^verbatim>\<open>os.path.split(p)[-1]\<close>: what follows the last slash.\<close>

definition basename :: "string \<Rightarrow> string" where
  "basename p = rev (takeWhile (\<lambda>c. c \<noteq> CHR ''/'') (rev p))"

text \<open>\<^verbatim>\<open>Project.get_linked_archive_path\<close> (lines 263 to 266).\<close>

definition get_linked_archive_path :: "env \<Rightarrow> string \<Rightarrow> string result" where
  "get_linked_archive_path e architecture =
     rbind (environ e ''CURRENT_VARIANT'') (\<lambda>variant.
     rbind (environ e (''OBJECT_FILE_DIR_'' @ variant)) (\<lambda>object_file_dir.
     rbind (environ e ''EXECUTABLE_NAME'') (\<lambda>executable_name.
       Inr (object_file_dir @ ''/'' @ architecture @ ''/'' @ executable_name))))"

text \<open>\<^verbatim>\<open>Project.get_linked_ufw_archive_path\<close> (lines 269 to 270).\<close>

definition get_linked_ufw_archive_path :: "env \<Rightarrow> string \<Rightarrow> string result" where
  "get_linked_ufw_archive_path e architecture =
     rbind (get_linked_archive_path e architecture) (\<lambda>p. Inr (p @ ''.ufwbuild''))"

text \<open>
  \<^verbatim>\<open>Project.__init__\<close>, lines 170 to 189, in the order of the source;
  \<^verbatim>\<open>list.remove\<close> raises \<^verbatim>\<open>ValueError\<close> when the local platform is not listed.
\<close>

definition Project_init :: "env \<Rightarrow> project_data \<Rightarrow> Project result" where
  "Project_init e pd =
     rbind (environ e ''BUILT_PRODUCTS_DIR'') (\<lambda>built_products_dir.
     rbind (environ e ''CONTENTS_FOLDER_PATH'') (\<lambda>contents_folder_path.
     rbind (environ e ''DT_TOOLCHAIN_DIR'') (\<lambda>toolchain_dir.
     rbind (environ e ''PROJECT_FILE_PATH'') (\<lambda>project_file_path.
     rbind (environ e ''EXECUTABLE_PATH'') (\<lambda>executable_path.
     rbind (environ e ''ARCHS'') (\<lambda>archs.
     rbind (environ e ''WRAPPER_NAME'') (\<lambda>wrapper_name.
     rbind (map_result (get_linked_ufw_archive_path e) (py_split '' '' archs)) (\<lambda>linked.
     rbind (environ e ''PLATFORM_NAME'') (\<lambda>platform_name.
     rbind (environ e ''SUPPORTED_PLATFORMS'') (\<lambda>supported.
     rbind (if platform_name \<in> set (py_split '' '' supported)
            then Inr (remove1 platform_name (py_split '' '' supported))
            else Inl ValueError) (\<lambda>other_platforms.
     rbind (case other_platforms of [] \<Rightarrow> Inl IndexError | x # xs \<Rightarrow> Inr x) (\<lambda>other.
     rbind (environ e ''SDK_NAME'') (\<lambda>sdk_name.
       if \<not> prefix platform_name sdk_name
       then Inl (Exception (sdk_name @ '' didn't start with '' @ platform_name))
       else Inr \<lparr>public_headers = pd_public_headers pd,
                 static_libraries = pd_static_libraries pd,
                 static_frameworks = pd_static_frameworks pd,
                 compilable_sources = pd_compilable_sources pd,
                 header_paths = map fullPath (pd_public_headers pd),
                 headers_dir = built_products_dir @ ''/'' @ contents_folder_path @ ''/Headers'',
                 libtool_path = toolchain_dir @ ''/usr/bin/libtool'',
                 project_filename = project_file_path @ ''/'' @ ''project.pbxproj'',
                 local_exe_path = built_products_dir @ ''/'' @ executable_path,
                 local_architectures = py_split '' '' archs,
                 local_built_fw_path = built_products_dir @ ''/'' @ wrapper_name,
                 local_built_embedded_fw_path =
                   splitext_root (built_products_dir @ ''/'' @ wrapper_name)
                     @ ''.embeddedframework'',
                 local_linked_archive_paths = linked,
                 local_platform = platform_name,
                 other_platform = other,
                 sdk_version = drop (length platform_name) sdk_name\<rparr>)))))))))))))"

text \<open>\<^verbatim>\<open>Project.movable_headers_relative_to\<close> (lines 255 to 259).\<close>

definition movable_headers_relative_to :: "Project \<Rightarrow> string list \<Rightarrow> string list list" where
  "movable_headers_relative_to p relative_path =
     (let rel_path_length = length relative_path;
          result = filter (\<lambda>path. length path \<ge> rel_path_length
                             \<and> take rel_path_length path = relative_path) (header_paths p)
      in map (drop rel_path_length) result)"

text \<open>\<^verbatim>\<open>Project.get_exe_path\<close> (lines 273 to 278); \<^verbatim>\<open>node['fullPath'][-1]\<close> raises on \<^verbatim>\<open>[]\<close>.\<close>

definition get_exe_path :: "env \<Rightarrow> fileref \<Rightarrow> string result" where
  "get_exe_path e node =
     rbind (environ e ''SOURCE_ROOT'') (\<lambda>source_root.
       let path = source_root @ ''/'' @ join ''/'' (fullPath node) in
       if fileType node = ''wrapper.framework'' then
         (if fullPath node = [] then Inl IndexError
          else Inr (path @ ''/'' @ splitext_root (last (fullPath node))))
       else Inr path)"

text \<open>
  \<^verbatim>\<open>os.environ.get(k, False)\<close> used as a condition: the variable is set and not empty.
\<close>

definition environ_truthy :: "env \<Rightarrow> string \<Rightarrow> bool" where
  "environ_truthy e k = (case map_of e k of None \<Rightarrow> False | Some v \<Rightarrow> v \<noteq> [])"

text \<open>\<^verbatim>\<open>Project.get_link_single_arch_command\<close> (lines 281 to 293).\<close>

definition get_link_single_arch_command :: "env \<Rightarrow> string \<Rightarrow> string list result" where
  "get_link_single_arch_command e architecture =
     rbind (environ e ''DT_TOOLCHAIN_DIR'') (\<lambda>toolchain_dir.
     rbind (environ e ''SDKROOT'') (\<lambda>sdkroot.
     rbind (environ e ''BUILT_PRODUCTS_DIR'') (\<lambda>built_products_dir.
     rbind (environ e ''CURRENT_VARIANT'') (\<lambda>variant.
     rbind (environ e (''LINK_FILE_LIST_'' @ variant @ ''_'' @ architecture)) (\<lambda>filelist.
     rbind (if environ_truthy e ''OTHER_LDFLAGS''
            then rbind (environ e ''OTHER_LDFLAGS'') (\<lambda>f. Inr [f]) else Inr []) (\<lambda>other.
     rbind (if environ_truthy e ''WARNING_LDFLAGS''
            then rbind (environ e ''WARNING_LDFLAGS'') (\<lambda>f. Inr [f]) else Inr []) (\<lambda>warning.
     rbind (get_linked_ufw_archive_path e architecture) (\<lambda>out.
       Inr ([toolchain_dir @ ''/usr/bin/libtool'', ''-static'', ''-arch_only'', architecture,
             ''-syslibroot'', sdkroot, ''-L'' @ built_products_dir, ''-filelist'', filelist]
            @ other @ warning @ [''-o'', out])))))))))"

text \<open>
  \<^verbatim>\<open>Project.get_final_link_command\<close> (lines 296 to 303), on the \<^verbatim>\<open>BuildState\<close> the
  project refers to. \<^verbatim>\<open>list + x\<close> raises \<^verbatim>\<open>TypeError\<close> unless \<open>x\<close> is a list. A command is a
  list of strings here: an entry of the slave's list that is not a string raises the
  \<^verbatim>\<open>TypeError\<close> that \<^verbatim>\<open>" ".join(cmd)\<close> raises in the source, as the first thing
  \<^verbatim>\<open>print_and_call\<close> does with the command; it is raised last, as there.
\<close>

definition as_list :: "json \<Rightarrow> json list result" where
  "as_list v = (case v of JArr xs \<Rightarrow> Inr xs | _ \<Rightarrow> Inl TypeError)"

definition as_str :: "json \<Rightarrow> string result" where
  "as_str v = (case v of JStr s \<Rightarrow> Inr s | _ \<Rightarrow> Inl TypeError)"

definition get_final_link_command :: "env \<Rightarrow> Project \<Rightarrow> pydict \<Rightarrow> string list result" where
  "get_final_link_command e p state =
     rbind (environ e ''DT_TOOLCHAIN_DIR'') (\<lambda>toolchain_dir.
     rbind (getattr state ''slave_linked_archive_paths'') (\<lambda>slave.
     rbind (as_list slave) (\<lambda>slave_linked_archive_paths.
     rbind (map_result (get_exe_path e) (static_frameworks p)) (\<lambda>fws.
     rbind (map_result (get_exe_path e) (static_libraries p)) (\<lambda>libs.
     rbind (environ e ''BUILT_PRODUCTS_DIR'') (\<lambda>built_products_dir.
     rbind (environ e ''EXECUTABLE_PATH'') (\<lambda>executable_path.
     rbind (map_result as_str slave_linked_archive_paths) (\<lambda>slave_paths.
       Inr ([toolchain_dir @ ''/usr/bin/libtool'', ''-static'']
            @ (local_linked_archive_paths p @ slave_paths)
            @ fws
            @ libs
            @ [''-o'', built_products_dir @ ''/'' @ executable_path])))))))))"

text \<open>
  \<^verbatim>\<open>Project.get_slave_environment\<close> (lines 310 to 319). The result is a dictionary; its
  items are given in the order of the environment.
\<close>

definition get_slave_environment :: "env \<Rightarrow> Project \<Rightarrow> (string \<times> string) list result" where
  "get_slave_environment e p =
     (let ignored = [''LD_MAP_FILE_PATH''] in
      rbind (environ e ''BUILD_ROOT'') (\<lambda>build_root.
      rbind (environ e ''TEMP_ROOT'') (\<lambda>temp_root.
        Inr (map (\<lambda>(key, v). (key, py_replace (local_platform p) (other_platform p) v))
              (filter (\<lambda>(key, v).
                  (key \<notin> set ignored \<and> \<not> prefix ''LINK_FILE_LIST_'' key)
                  \<and> (contains build_root v \<or> contains temp_root v)) e)))))"

text \<open>\<^verbatim>\<open>Project.get_slave_project_build_command\<close> (lines 322 to 335).\<close>

definition get_slave_project_build_command :: "env \<Rightarrow> Project \<Rightarrow> string list result" where
  "get_slave_project_build_command e p =
     rbind (environ e ''PROJECT_FILE_PATH'') (\<lambda>project_file_path.
     rbind (environ e ''TARGET_NAME'') (\<lambda>target_name.
     rbind (environ e ''CONFIGURATION'') (\<lambda>configuration.
     rbind (get_slave_environment e p) (\<lambda>slave_env.
     rbind (environ e ''PLATFORM_NAME'') (\<lambda>platform_name.
     rbind (environ e ''ACTION'') (\<lambda>action.
       Inr ([''xcodebuild'', ''-project'', project_file_path, ''-target'', target_name,
             ''-configuration'', configuration, ''-sdk'', other_platform p @ sdk_version p]
            @ map (\<lambda>(key, v). key @ ''='' @ v) slave_env
            @ [''UFW_MASTER_PLATFORM='' @ platform_name]
            @ [action])))))))"

section \<open>Utility functions\<close>

text \<open>\<^verbatim>\<open>is_master\<close> (lines 340 to 341); the default argument is evaluated in any case.\<close>

definition is_master :: "env \<Rightarrow> bool result" where
  "is_master e =
     rbind (environ e ''PLATFORM_NAME'') (\<lambda>platform_name.
       Inr ((case map_of e ''UFW_MASTER_PLATFORM'' of
               None \<Rightarrow> platform_name | Some m \<Rightarrow> m) = platform_name))"

text \<open>\<^verbatim>\<open>remove_subdirs\<close> (lines 344 to 350).\<close>

definition remove_subdirs :: "string \<Rightarrow> string list \<Rightarrow> unit io" where
  "remove_subdirs path ignore_files =
     bind (gets (\<lambda>w. os_path_exists w path)) (\<lambda>ex.
       when_io ex
         (bind (\<lambda>w. (os_listdir w path, w)) (\<lambda>names.
            for_each (\<lambda>filename.
              let fullpath = path @ ''/'' @ filename in
              bind (gets (\<lambda>w. os_path_isdir w fullpath)) (\<lambda>isd.
                when_io isd
                  (bind (log_info (''Remove '' @ fullpath)) (\<lambda>_. shutil_rmtree fullpath))))
              (filter (\<lambda>x. x \<notin> set ignore_files) names))))"

text \<open>\<^verbatim>\<open>ensure_parent_exists\<close> (lines 352 to 355) and \<^verbatim>\<open>ensure_path_exists\<close> (357 to 359).\<close>

definition ensure_parent_exists :: "string \<Rightarrow> unit io" where
  "ensure_parent_exists path =
     (let parent = os_path_dirname path in
      bind (gets (\<lambda>w. os_path_isdir w parent)) (\<lambda>isd. when_io (\<not> isd) (os_makedirs parent)))"

definition ensure_path_exists :: "string \<Rightarrow> unit io" where
  "ensure_path_exists path =
     bind (gets (\<lambda>w. os_path_isdir w path)) (\<lambda>isd. when_io (\<not> isd) (os_makedirs path))"

text \<open>\<^verbatim>\<open>remove_path\<close> (lines 361 to 366).\<close>

definition remove_path :: "string \<Rightarrow> unit io" where
  "remove_path path =
     bind (gets (\<lambda>w. os_path_exists w path)) (\<lambda>ex.
       when_io ex
         (bind (gets (\<lambda>w. os_path_isdir w path)) (\<lambda>isd.
            if isd then shutil_rmtree path else os_remove path)))"

text \<open>
  \<^verbatim>\<open>shutil.move\<close> as \<^verbatim>\<open>move_file\<close> uses it: the source is a regular file or a link to one and
  the destination has just been removed, so the move is a \<^verbatim>\<open>rename\<close>. Moving a directory
  or into a directory is not modelled.
\<close>

definition shutil_move :: "string \<Rightarrow> string \<Rightarrow> unit io" where
  "shutil_move src dst w =
     (if os_path_isdir w dst then (Inl NotModelled, w)
      else (case lstat_path w src of
              None \<Rightarrow> (Inl IOError, w)
            | Some sp \<Rightarrow>
                (case map_of (fs w) sp of
                   None \<Rightarrow> (Inl IOError, w)
                 | Some (Dir m) \<Rightarrow> (Inl NotModelled, w)
                 | Some n \<Rightarrow>
                     (case lstat_path w dst of
                        None \<Rightarrow> (Inl IOError, w)
                      | Some dp \<Rightarrow>
                          (Inr (), w\<lparr>fs := AList.update dp n
                                            (filter (\<lambda>(q, n'). q \<noteq> sp) (fs w))\<rparr>)))))"

text \<open>\<^verbatim>\<open>move_file\<close> (lines 368 to 374).\<close>

definition move_file :: "string \<Rightarrow> string \<Rightarrow> unit io" where
  "move_file src dst =
     bind (gets (\<lambda>w. os_path_isfile w src)) (\<lambda>isf.
       if src = dst then ret ()
       else if isf then
            bind (log_info (''Move '' @ src @ '' to '' @ dst)) (\<lambda>_.
            bind (ensure_parent_exists dst) (\<lambda>_.
            bind (remove_path dst) (\<lambda>_.
              shutil_move src dst)))
       else ret ())"

text \<open>
  \<^verbatim>\<open>shutil.copytree(src, dst, symlinks=True)\<close>: \<open>src\<close> must be a directory, \<open>dst\<close> must
  not exist and is made with \<^verbatim>\<open>os.makedirs\<close>; everything below \<open>src\<close> is copied to the
  same place below \<open>dst\<close>, files with their times (\<^verbatim>\<open>copy2\<close>), links verbatim. A
  destination inside the source is not modelled.
\<close>

definition shutil_copytree :: "string \<Rightarrow> string \<Rightarrow> unit io" where
  "shutil_copytree src dst w =
     (case stat_path w src of
        None \<Rightarrow> (Inl OSError, w)
      | Some sp \<Rightarrow>
          (case node_at (fs w) sp of
             Some (Dir m) \<Rightarrow>
               (let entries = filter (\<lambda>(q, n). strict_prefix sp q) (fs w) in
                case os_makedirs dst w of
                  (Inl err, w') \<Rightarrow> (Inl err, w')
                | (Inr u, w') \<Rightarrow>
                    (case stat_path w' dst of
                       None \<Rightarrow> (Inl NotModelled, w')
                     | Some dp \<Rightarrow>
                         if prefix sp dp then (Inl NotModelled, w')
                         else (Inr (), w'\<lparr>fs := fs w'
                                 @ map (\<lambda>(q, n). (dp @ drop (length sp) q, n)) entries\<rparr>)))
           | _ \<Rightarrow> (Inl OSError, w)))"

text \<open>\<^verbatim>\<open>copy_overwrite\<close> (lines 376 to 379).\<close>

definition copy_overwrite :: "string \<Rightarrow> string \<Rightarrow> unit io" where
  "copy_overwrite src dst =
     bind (remove_path dst) (\<lambda>_.
     bind (ensure_parent_exists dst) (\<lambda>_.
       shutil_copytree src dst))"

text \<open>\<^verbatim>\<open>attempt_symlink\<close> (lines 381 to 388).\<close>

definition attempt_symlink :: "string \<Rightarrow> string \<Rightarrow> unit io" where
  "attempt_symlink link_path link_to =
     bind (\<lambda>w. os_stat (os_path_abspath w (link_path @ ''/../'' @ link_to)) w) (\<lambda>_.
     bind (gets (\<lambda>w. os_path_exists w link_path)) (\<lambda>ex.
       when_io (\<not> ex)
         (bind (log_info (''Symlink '' @ link_path @ '' -> '' @ link_to)) (\<lambda>_.
            os_symlink link_to link_path))))"

text \<open>
  \<^verbatim>\<open>top_level_file_path\<close> (lines 393 to 394), where \<^verbatim>\<open>path_list[-1]\<close> raises on an empty
  list, and \<^verbatim>\<open>full_file_path\<close> (lines 399 to 400).
\<close>

definition top_level_file_path :: "string \<Rightarrow> string list \<Rightarrow> string result" where
  "top_level_file_path base_path path_list =
     (if path_list = [] then Inl IndexError
      else Inr (base_path @ ''/'' @ basename (last path_list)))"

definition full_file_path :: "string \<Rightarrow> string list \<Rightarrow> string" where
  "full_file_path base_path path_list = base_path @ ''/'' @ join ''/'' path_list"

section \<open>Main application\<close>

text \<open>\<^verbatim>\<open>check_for_derived_data_in_search_paths\<close> (lines 439 to 444).\<close>

definition check_for_derived_data_in_search_paths :: "env \<Rightarrow> unit io" where
  "check_for_derived_data_in_search_paths e =
     for_each (\<lambda>path_key.
       bind (lift (environ e path_key)) (\<lambda>path.
         when_io (contains ''DerivedData'' path \<and> contains ''/../'' path)
           (issue_warning ([CHR 0x27] @ path_key @ [CHR 0x27]
              @ '' contains reference to '' @ [CHR 0x27] @ ''DerivedData'' @ [CHR 0x27] @ ''.''))))
       [''FRAMEWORK_SEARCH_PATHS'', ''LIBRARY_SEARCH_PATHS'', ''HEADER_SEARCH_PATHS'']"

text \<open>
  \<^verbatim>\<open>are_link_targets_clean\<close> (lines 447 to 456). The loop returns \<^verbatim>\<open>False\<close> at the first
  architecture whose times are not in order; \<^verbatim>\<open>except OSError\<close> turns a failing
  \<^verbatim>\<open>getmtime\<close> into \<^verbatim>\<open>False\<close>, and nothing else.
\<close>

fun link_targets_loop :: "env \<Rightarrow> world \<Rightarrow> string list \<Rightarrow> bool result" where
  "link_targets_loop e w [] = Inr True"
| "link_targets_loop e w (arch # archs) =
     rbind (get_linked_archive_path e arch) (\<lambda>linked.
     rbind (os_path_getmtime w linked) (\<lambda>link_time.
     rbind (get_linked_ufw_archive_path e arch) (\<lambda>ufw.
     rbind (os_path_getmtime w ufw) (\<lambda>ufw_time.
       if link_time = 0 \<or> ufw_time = 0 \<or> link_time > ufw_time then Inr False
       else link_targets_loop e w archs))))"

definition are_link_targets_clean :: "env \<Rightarrow> Project \<Rightarrow> world \<Rightarrow> bool result" where
  "are_link_targets_clean e p w =
     (case link_targets_loop e w (local_architectures p) of
        Inl OSError \<Rightarrow> Inr False
      | r \<Rightarrow> r)"

text \<open>
  The condition under which the loop of lines 449 to 453 goes on to the next
  architecture, on the paths of Xcode's linked archive and of the \<^verbatim>\<open>.ufwbuild\<close> archive:
  both have a modification time, neither time is 0 and the linked archive is not the
  newer one.
\<close>

definition archive_pair_clean :: "world \<Rightarrow> string \<Rightarrow> string \<Rightarrow> bool" where
  "archive_pair_clean w linked ufw =
     (case os_path_getmtime w linked of
        Inl err \<Rightarrow> False
      | Inr link_time \<Rightarrow>
          (case os_path_getmtime w ufw of
             Inl err \<Rightarrow> False
           | Inr ufw_time \<Rightarrow> link_time \<noteq> 0 \<and> ufw_time \<noteq> 0 \<and> link_time \<le> ufw_time))"

text \<open>\<^verbatim>\<open>relink_project\<close> (lines 458 to 463).\<close>

definition relink_project :: "ext \<Rightarrow> env \<Rightarrow> Project \<Rightarrow> unit io" where
  "relink_project x e p =
     bind (for_each (\<lambda>arch.
             bind (lift (get_link_single_arch_command e arch)) (print_and_call x))
             (local_architectures p)) (\<lambda>_.
     bind (lift (is_master e)) (\<lambda>master.
       when_io master
         (bind (gets build_state) (\<lambda>state.
          bind (lift (get_final_link_command e p state)) (print_and_call x)))))"

text \<open>
  \<^verbatim>\<open>os.path.commonprefix\<close> on a list of component lists: the longest common prefix
  (Python takes it of the least and the greatest list, which is the same).
\<close>

fun common2 :: "'a list \<Rightarrow> 'a list \<Rightarrow> 'a list" where
  "common2 (x # xs) (y # ys) = (if x = y then x # common2 xs ys else [])"
| "common2 xs ys = []"

definition commonprefix :: "'a list list \<Rightarrow> 'a list" where
  "commonprefix m = (case m of [] \<Rightarrow> [] | x # xs \<Rightarrow> foldl common2 x xs)"

fun filter_result :: "('a \<Rightarrow> bool result) \<Rightarrow> 'a list \<Rightarrow> 'a list result" where
  "filter_result f [] = Inr []"
| "filter_result f (x # xs) =
     rbind (f x) (\<lambda>b. rbind (filter_result f xs) (\<lambda>ys. Inr (if b then x # ys else ys)))"

text \<open>
  \<^verbatim>\<open>build_deep_header_hierarchy\<close> (lines 468 to 484). \<open>header_prune_list\<close> is the second
  argument of \<^verbatim>\<open>remove_subdirs\<close> at line 480: the first components of the movable headers
  that are not regular files at the top of the built headers directory.
\<close>

definition header_path_top :: "config \<Rightarrow> Project \<Rightarrow> string list" where
  "header_path_top cfg p =
     (case config_deep_header_top cfg of
        None \<Rightarrow> commonprefix (header_paths p)
      | Some t \<Rightarrow> if t = [] then commonprefix (header_paths p) else py_split ''/'' t)"

definition header_prune_list :: "world \<Rightarrow> string \<Rightarrow> string list list \<Rightarrow> string list result" where
  "header_prune_list w built_headers_path movable_headers =
     rbind (filter_result (\<lambda>x.
              rbind (top_level_file_path built_headers_path x) (\<lambda>f.
                Inr (\<not> os_path_isfile w f))) movable_headers) (\<lambda>ignore_headers.
       map_result (\<lambda>file. case file of [] \<Rightarrow> Inl IndexError | c # cs \<Rightarrow> Inr c) ignore_headers)"

definition build_deep_header_hierarchy :: "config \<Rightarrow> env \<Rightarrow> Project \<Rightarrow> unit io" where
  "build_deep_header_hierarchy cfg e p =
     bind (lift (environ e ''BUILT_PRODUCTS_DIR'')) (\<lambda>built_products_dir.
     bind (lift (environ e ''PUBLIC_HEADERS_FOLDER_PATH'')) (\<lambda>public_headers_folder_path.
       let built_headers_path = built_products_dir @ ''/'' @ public_headers_folder_path;
           movable_headers = movable_headers_relative_to p (header_path_top cfg p)
       in
       bind (\<lambda>w. (header_prune_list w built_headers_path movable_headers, w)) (\<lambda>ignore.
       bind (remove_subdirs built_headers_path ignore) (\<lambda>_.
         for_each (\<lambda>header.
           bind (lift (top_level_file_path built_headers_path header)) (\<lambda>src.
             move_file src (full_file_path built_headers_path header)))
           movable_headers))))"

text \<open>\<^verbatim>\<open>add_symlinks_to_framework\<close> (lines 486 to 493).\<close>

definition add_symlinks_to_framework :: "env \<Rightarrow> Project \<Rightarrow> unit io" where
  "add_symlinks_to_framework e p =
     (let base_dir = local_built_fw_path p @ ''/'' in
      bind (lift (environ e ''FRAMEWORK_VERSION'')) (\<lambda>framework_version.
      bind (attempt_symlink (base_dir @ ''Versions/Current'') framework_version) (\<lambda>_.
      bind (gets (\<lambda>w. os_path_isdir w (base_dir @ ''Versions/Current/Headers''))) (\<lambda>hs.
      bind (when_io hs
              (attempt_symlink (base_dir @ ''Headers'') ''Versions/Current/Headers'')) (\<lambda>_.
      bind (gets (\<lambda>w. os_path_isdir w (base_dir @ ''Versions/Current/Resources''))) (\<lambda>rs.
      bind (when_io rs
              (attempt_symlink (base_dir @ ''Resources'') ''Versions/Current/Resources'')) (\<lambda>_.
      bind (lift (environ e ''EXECUTABLE_NAME'')) (\<lambda>executable_name.
        attempt_symlink (base_dir @ executable_name)
          (''Versions/Current/'' @ executable_name)))))))))"

text \<open>\<^verbatim>\<open>run_slave_build\<close> (lines 495 to 496).\<close>

definition run_slave_build :: "ext \<Rightarrow> env \<Rightarrow> Project \<Rightarrow> unit io" where
  "run_slave_build x e p =
     bind (lift (get_slave_project_build_command e p)) (\<lambda>cmd.
       print_and_call_slave_build x cmd (other_platform p))"

text \<open>\<^verbatim>\<open>build_embedded_framework\<close> (lines 498 to 510).\<close>

definition build_embedded_framework :: "env \<Rightarrow> Project \<Rightarrow> unit io" where
  "build_embedded_framework e p =
     (let fw_path = local_built_fw_path p;
          embedded_path = local_built_embedded_fw_path p
      in
      bind (lift (environ e ''WRAPPER_NAME'')) (\<lambda>fw_name.
      bind (remove_path embedded_path) (\<lambda>_.
      bind (ensure_path_exists embedded_path) (\<lambda>_.
      bind (copy_overwrite fw_path (embedded_path @ ''/'' @ fw_name)) (\<lambda>_.
      bind (ensure_path_exists (embedded_path @ ''/Resources'')) (\<lambda>_.
        let symlink_source = ''../'' @ fw_name @ ''/Resources/'';
            symlink_path = embedded_path @ ''/Resources/''
        in
        bind (gets (\<lambda>w. os_path_isdir w (fw_path @ ''/Resources''))) (\<lambda>isd.
          when_io isd
            (bind (\<lambda>w. (os_listdir w (fw_path @ ''/Resources''), w)) (\<lambda>names.
               for_each (\<lambda>file. attempt_symlink (symlink_path @ file) (symlink_source @ file))
                 (filter (\<lambda>x. x \<noteq> ''Info.plist'' \<and> \<not> suffix ''.lproj'' x) names))))))))))"

text \<open>
  \<^verbatim>\<open>run_build\<close> (lines 512 to 562), in the parts that the source separates by blank
  lines. Python 2 compares a float with any value: \<^verbatim>\<open>None\<close> is below every number and
  strings, lists and dictionaries are above.
\<close>

definition py_float_gt :: "rat \<Rightarrow> json \<Rightarrow> bool" where
  "py_float_gt m v =
     (case v of
        JNum n \<Rightarrow> m > n
      | JNull \<Rightarrow> True
      | JBool b \<Rightarrow> m > (if b then 1 else 0)
      | _ \<Rightarrow> False)"

text \<open>Lines 516 to 532: the value of \<^verbatim>\<open>rebuild_needed\<close>.\<close>

definition rebuild_needed :: "config \<Rightarrow> env \<Rightarrow> Project \<Rightarrow> bool io" where
  "rebuild_needed cfg e project =
     bind (lift (is_master e)) (\<lambda>master.
       if master then
         bind (when_io (length (compilable_sources project) = 0)
                 (bind (lift (environ e ''TARGET_NAME'')) (\<lambda>target_name.
                    raise (Exception (''No compilable sources found. Please add at least one ''
                      @ ''source file to build target '' @ target_name @ ''.''))))) (\<lambda>_.
         bind (when_io (config_warn_derived_data cfg)
                 (check_for_derived_data_in_search_paths e)) (\<lambda>_.
         bind (when_io (config_warn_no_public_headers cfg
                         \<and> length (public_headers project) = 0)
                 (bind (lift (environ e ''TARGET_NAME'')) (\<lambda>target_name.
                    issue_warning (''No headers in build target '' @ target_name
                      @ '' were marked public. Please move at least one header to ''
                      @ [CHR 0x22] @ ''Public'' @ [CHR 0x22] @ '' in the ''
                      @ [CHR 0x22] @ ''Copy Headers'' @ [CHR 0x22] @ '' build phase.'')))) (\<lambda>_.
         bind (gets (\<lambda>w. os_path_exists w (local_exe_path project))) (\<lambda>ex.
           if ex then
             bind (\<lambda>w. (os_path_getmtime w (local_exe_path project), w)) (\<lambda>mtime.
             bind (gets build_state) (\<lambda>state.
             bind (lift (getattr state ''last_completion'')) (\<lambda>last_completion.
               ret (py_float_gt mtime last_completion))))
           else ret True))))
       else ret True)"

text \<open>Lines 535 to 543: the exchange between master and slave.\<close>

definition exchange_state :: "ext \<Rightarrow> env \<Rightarrow> Project \<Rightarrow> unit io" where
  "exchange_state x e project =
     bind (lift (is_master e)) (\<lambda>master.
       if master then
         bind (BuildState_persist e) (\<lambda>_.
         bind (run_slave_build x e project) (\<lambda>_.
           BuildState_reload e))
       else
         BuildState_set_slave_properties e (local_architectures project)
           (local_linked_archive_paths project) (local_built_fw_path project)
           (local_built_embedded_fw_path project))"

text \<open>Lines 547 to 548: the linking stage.\<close>

definition link_stage :: "ext \<Rightarrow> env \<Rightarrow> Project \<Rightarrow> unit io" where
  "link_stage x e project =
     bind (\<lambda>w. (are_link_targets_clean e project w, w)) (\<lambda>clean.
       when_io (\<not> clean) (relink_project x e project))"

text \<open>
  Lines 556 to 562: the master's last steps. A path handed to \<^verbatim>\<open>os.path.exists\<close> that is
  not a string raises \<^verbatim>\<open>TypeError\<close>.
\<close>

definition finish_master :: "env \<Rightarrow> Project \<Rightarrow> unit io" where
  "finish_master e project =
     bind (lift (is_master e)) (\<lambda>master.
       when_io master
         (bind (gets build_state) (\<lambda>state.
          bind (lift (rbind (getattr state ''slave_built_fw_path'') as_str)) (\<lambda>slave_fw.
          bind (copy_overwrite (local_built_fw_path project) slave_fw) (\<lambda>_.
          bind (gets build_state) (\<lambda>state.
          bind (lift (rbind (getattr state ''slave_built_embedded_fw_path'') as_str)) (\<lambda>slave_emb.
          bind (copy_overwrite (local_built_embedded_fw_path project) slave_emb) (\<lambda>_.
          bind (BuildState_reset e) (\<lambda>_.
            modify (\<lambda>w. w\<lparr>build_state :=
              fmupd ''last_completion'' (JNum (now w)) (build_state w)\<rparr>))))))))))"

definition run_build :: "ext \<Rightarrow> config \<Rightarrow> env \<Rightarrow> project_data \<Rightarrow> unit io" where
  "run_build x cfg e pd =
     bind (lift (Project_init e pd)) (\<lambda>project.
     bind (rebuild_needed cfg e project) (\<lambda>rebuild.
       when_io rebuild
         (bind (exchange_state x e project) (\<lambda>_.
          bind (link_stage x e project) (\<lambda>_.
          bind (when_io (config_deep_header_hierarchy cfg)
                  (build_deep_header_hierarchy cfg e project)) (\<lambda>_.
          bind (add_symlinks_to_framework e project) (\<lambda>_.
          bind (build_embedded_framework e project) (\<lambda>_.
            finish_master e project))))))))"

text \<open>
  The script's entry (lines 565 to 598). The process ends with an exit code, or with an
  exception that nothing catches. \<open>subst\<close> stands for
  \<^verbatim>\<open>string.Template(t).substitute(os.environ)\<close>. The traceback printed at line 592 is not
  part of the model. When an exception leaves the \<^verbatim>\<open>except\<close> block, \<^verbatim>\<open>sys.exit\<close> in the
  \<^verbatim>\<open>finally\<close> block replaces it, with the error code assigned so far.
\<close>

datatype outcome = Exit int | Uncaught error

text \<open>Lines 580 to 581: the configured top of the header hierarchy after substitution.\<close>

definition substitute_top :: "(string \<Rightarrow> string result) \<Rightarrow> config \<Rightarrow> config result" where
  "substitute_top subst cfg =
     (case config_deep_header_top cfg of
        None \<Rightarrow> Inr cfg
      | Some t \<Rightarrow>
          if t = [] then Inr cfg
          else rbind (subst t) (\<lambda>t'. Inr (cfg\<lparr>config_deep_header_top := Some t'\<rparr>)))"

text \<open>
  Lines 583 to 595: the \<^verbatim>\<open>try\<close> statement without its \<^verbatim>\<open>finally\<close> block, giving the error
  code.
\<close>

definition try_run_build :: "ext \<Rightarrow> config \<Rightarrow> config \<Rightarrow> env \<Rightarrow> project_data
    \<Rightarrow> world \<Rightarrow> int \<times> world" where
  "try_run_build x cfg cfg' e pd w1 =
     (case run_build x cfg' e pd w1 of
        (Inr u, w2) \<Rightarrow>
          if issued_warnings w2 then
            ((if config_fail_on_warnings cfg then 1 else 0),
             snd (log_warn ''Build completed with warnings'' w2))
          else (0, snd (log_info ''Build completed'' w2))
      | (Inl err, w2) \<Rightarrow>
          (case BuildState_reset e w2 of
             (Inl err', w3) \<Rightarrow> (0, w3)
           | (Inr u, w3) \<Rightarrow> (1, snd (log_error ''Build failed'' w3))))"

definition main :: "ext \<Rightarrow> (string \<Rightarrow> string result) \<Rightarrow> config \<Rightarrow> env \<Rightarrow> project_data
    \<Rightarrow> world \<Rightarrow> outcome \<times> world" where
  "main x subst cfg e pd w0 =
     (case environ e ''PLATFORM_NAME'' of
        Inl err \<Rightarrow> (Uncaught err, w0)
      | Inr platform_name \<Rightarrow>
     (case BuildState_init e (w0\<lparr>issued_warnings := False\<rparr>) of
        (Inl err, w1) \<Rightarrow> (Uncaught err, w1)
      | (Inr u, w1) \<Rightarrow>
     (case is_master e of
        Inl err \<Rightarrow> (Uncaught err, w1)
      | Inr master \<Rightarrow>
     (case substitute_top subst cfg of
        Inl err \<Rightarrow> (Uncaught err, w1)
      | Inr cfg' \<Rightarrow>
     (case try_run_build x cfg cfg' e pd w1 of
        (error_code, w4) \<Rightarrow>
     (case BuildState_persist e w4 of
        (Inl err, w5) \<Rightarrow> (Uncaught err, w5)
      | (Inr u, w5) \<Rightarrow> (Exit error_code, w5)))))))"

section \<open>A worked example\<close>

text \<open>
  A master build of a framework \<^verbatim>\<open>F\<close> for the platforms \<^verbatim>\<open>ios\<close> (local) and \<^verbatim>\<open>sim\<close>,
  one architecture each, used to evaluate the definitions above.
\<close>

definition example_env :: env where
  "example_env =
     [(''PLATFORM_NAME'', ''ios''), (''SUPPORTED_PLATFORMS'', ''ios sim''),
      (''BUILT_PRODUCTS_DIR'', ''/b''), (''CURRENT_VARIANT'', ''n''),
      (''EXECUTABLE_NAME'', ''F''), (''OBJECT_FILE_DIR_n'', ''/o''),
      (''PROJECT_TEMP_DIR'', ''/t''), (''CONFIGURATION'', ''R''), (''PRODUCT_NAME'', ''F''),
      (''WRAPPER_NAME'', ''F.framework''), (''EXECUTABLE_PATH'', ''F.framework/Versions/A/F''),
      (''CONTENTS_FOLDER_PATH'', ''F.framework/Versions/A''), (''DT_TOOLCHAIN_DIR'', ''/dev''),
      (''PROJECT_FILE_PATH'', ''/p/F.xcodeproj''), (''ARCHS'', ''armv7''),
      (''SDK_NAME'', ''ios7''), (''SDKROOT'', ''/sdk''),
      (''LINK_FILE_LIST_n_armv7'', ''/o/armv7/F.LinkFileList''), (''SOURCE_ROOT'', ''/p''),
      (''BUILD_ROOT'', ''/b''), (''TEMP_ROOT'', ''/t''), (''TARGET_NAME'', ''F''),
      (''ACTION'', ''build''), (''FRAMEWORK_VERSION'', ''A''),
      (''PUBLIC_HEADERS_FOLDER_PATH'', ''F.framework/Versions/A/Headers''),
      (''FRAMEWORK_SEARCH_PATHS'', []), (''LIBRARY_SEARCH_PATHS'', []),
      (''HEADER_SEARCH_PATHS'', [])]"

definition example_pd :: project_data where
  "example_pd =
     \<lparr>pd_public_headers = [],
      pd_static_libraries = [\<lparr>fullPath = [''libs'', ''libz.a''], fileType = ''archive.ar''\<rparr>],
      pd_static_frameworks =
        [\<lparr>fullPath = [''fw'', ''G.framework''], fileType = ''wrapper.framework''\<rparr>],
      pd_compilable_sources = [\<lparr>fullPath = [''F'', ''a.m''], fileType = ''sourcecode.c.objc''\<rparr>]\<rparr>"

definition example_project :: Project where
  "example_project =
     \<lparr>public_headers = [],
      static_libraries = [\<lparr>fullPath = [''libs'', ''libz.a''], fileType = ''archive.ar''\<rparr>],
      static_frameworks =
        [\<lparr>fullPath = [''fw'', ''G.framework''], fileType = ''wrapper.framework''\<rparr>],
      compilable_sources = [\<lparr>fullPath = [''F'', ''a.m''], fileType = ''sourcecode.c.objc''\<rparr>],
      header_paths = [],
      headers_dir = ''/b/F.framework/Versions/A/Headers'',
      libtool_path = ''/dev/usr/bin/libtool'',
      project_filename = ''/p/F.xcodeproj/project.pbxproj'',
      local_exe_path = ''/b/F.framework/Versions/A/F'',
      local_architectures = [''armv7''],
      local_built_fw_path = ''/b/F.framework'',
      local_built_embedded_fw_path = ''/b/F.embeddedframework'',
      local_linked_archive_paths = [''/o/armv7/F.ufwbuild''],
      local_platform = ''ios'',
      other_platform = ''sim'',
      sdk_version = ''7''\<rparr>"

definition example_cfg :: config where
  "example_cfg =
     \<lparr>config_deep_header_hierarchy = True, config_deep_header_top = Some ''F'',
      config_warn_derived_data = True, config_warn_no_public_headers = True,
      config_fail_on_warnings = True\<rparr>"

definition example_state :: pydict where
  "example_state =
     fmupd ''slave_built_embedded_fw_path'' (JStr ''/s/F.embeddedframework'')
       (fmupd ''slave_built_fw_path'' (JStr ''/s/F.framework'')
         (fmupd ''slave_linked_archive_paths'' (JArr [JStr ''/o2/i386/F.ufwbuild''])
           (fmupd ''slave_architectures'' (JArr [JStr ''i386''])
             (fmupd ''slave_platform'' (JStr ''sim'')
               (fmupd ''last_completion'' (JNum 0)
                 (fmupd ''platforms'' (JArr [JStr ''ios'', JStr ''sim'']) fmempty))))))"

text \<open>
  Two worlds for the example environment. In \<open>corrupt_world\<close> the state file of
  \<^verbatim>\<open>ios\<close> exists and is not JSON. In \<open>swapped_world\<close> both state files hold the state that
  \<^verbatim>\<open>persist\<close> writes after a reset under \<^verbatim>\<open>SUPPORTED_PLATFORMS="sim ios"\<close>; the paths of the
  state files do not depend on that variable.
\<close>

definition state_dirs :: "(path \<times> node) list" where
  "state_dirs =
     [([''t''], Dir 1),
      ([''t'', ''R-ios''], Dir 1), ([''t'', ''R-ios'', ''F.build''], Dir 1),
      ([''t'', ''R-ios'', ''F.build'', ''Objects-n''], Dir 1),
      ([''t'', ''R-sim''], Dir 1), ([''t'', ''R-sim'', ''F.build''], Dir 1),
      ([''t'', ''R-sim'', ''F.build'', ''Objects-n''], Dir 1)]"

definition empty_world :: world where
  "empty_world =
     \<lparr>fs = [], cwd = [], now = 0, calls = [], log = [], build_state = fmempty,
      issued_warnings = False\<rparr>"

definition corrupt_world :: world where
  "corrupt_world =
     empty_world\<lparr>fs := state_dirs @
       [([''t'', ''R-ios'', ''F.build'', ''Objects-n'', ''ufw_build_state.json''],
         File 1 Unparsable)]\<rparr>"

definition swapped_world :: world where
  "swapped_world =
     empty_world\<lparr>fs := state_dirs @
       [([''t'', ''R-ios'', ''F.build'', ''Objects-n'', ''ufw_build_state.json''],
         File 1 (Json (JObj (reset_dict ''sim ios'' fmempty)))),
        ([''t'', ''R-sim'', ''F.build'', ''Objects-n'', ''ufw_build_state.json''],
         File 1 (Json (JObj (reset_dict ''sim ios'' fmempty))))]\<rparr>"

text \<open>External commands that do nothing and succeed.\<close>

definition ext_ok :: ext where
  "ext_ok cmd w = (Inr (0, []), w)"

section \<open>Frame conditions\<close>

text \<open>\<open>keeps g m\<close>: the action \<open>m\<close> leaves the component \<open>g\<close> of the world as it is.\<close>

definition keeps :: "(world \<Rightarrow> 'b) \<Rightarrow> 'a io \<Rightarrow> bool" where
  "keeps g m = (\<forall>w. g (snd (m w)) = g w)"

text \<open>
  \<open>build_world\<close>: the framework has been compiled (its executable is newer than the
  completion time 3 in both state files) and the per-architecture archive
  \<^verbatim>\<open>F.ufwbuild\<close> is newer than Xcode's linked archive. \<open>ext_slave\<close> is an \<^verbatim>\<open>xcodebuild\<close>
  whose slave run of the script reports \<open>example_state\<close> in both state files; every
  other command succeeds without doing anything.
\<close>

definition old_state :: pydict where
  "old_state = fmupd ''last_completion'' (JNum 3) (reset_dict ''ios sim'' fmempty)"

definition build_world :: world where
  "build_world =
     empty_world\<lparr>now := 20, fs := state_dirs @
       [([''t'', ''R-ios'', ''F.build'', ''Objects-n'', ''ufw_build_state.json''],
         File 3 (Json (JObj old_state))),
        ([''t'', ''R-sim'', ''F.build'', ''Objects-n'', ''ufw_build_state.json''],
         File 3 (Json (JObj old_state))),
        ([''b''], Dir 1), ([''b'', ''F.framework''], Dir 1),
        ([''b'', ''F.framework'', ''Versions''], Dir 1),
        ([''b'', ''F.framework'', ''Versions'', ''A''], Dir 1),
        ([''b'', ''F.framework'', ''Versions'', ''A'', ''F''], File 10 Unparsable),
        ([''o''], Dir 1), ([''o'', ''armv7''], Dir 1),
        ([''o'', ''armv7'', ''F''], File 5 Unparsable),
        ([''o'', ''armv7'', ''F.ufwbuild''], File 6 Unparsable)]\<rparr>"

definition ext_slave :: ext where
  "ext_slave cmd w =
     (if take 1 cmd = [''xcodebuild''] then
        (Inr (0, []),
         w\<lparr>now := now w + 1,
           fs := AList.update
                   [''t'', ''R-ios'', ''F.build'', ''Objects-n'', ''ufw_build_state.json'']
                   (File (now w) (Json (JObj example_state)))
                   (AList.update
                      [''t'', ''R-sim'', ''F.build'', ''Objects-n'', ''ufw_build_state.json'']
                      (File (now w) (Json (JObj example_state))) (fs w))\<rparr>)
      else (Inr (0, []), w))"

text \<open>
  Two worlds for the linking stage, with the slave's report in the build state. In
  \<open>stale_world\<close> the \<^verbatim>\<open>.ufwbuild\<close> archive (time 8) is newer than the framework's
  executable (time 5) and older than Xcode's linked archive of the architecture (time
  9). In \<open>epoch_world\<close> Xcode's linked archive has the time 0.
\<close>

definition link_fs :: "rat \<Rightarrow> (path \<times> node) list" where
  "link_fs t =
     [([''b''], Dir 1), ([''b'', ''F.framework''], Dir 1),
      ([''b'', ''F.framework'', ''Versions''], Dir 1),
      ([''b'', ''F.framework'', ''Versions'', ''A''], Dir 1),
      ([''b'', ''F.framework'', ''Versions'', ''A'', ''F''], File 5 Unparsable),
      ([''o''], Dir 1), ([''o'', ''armv7''], Dir 1),
      ([''o'', ''armv7'', ''F''], File t Unparsable),
      ([''o'', ''armv7'', ''F.ufwbuild''], File 8 Unparsable)]"

definition stale_world :: world where
  "stale_world = empty_world\<lparr>now := 20, fs := link_fs 9, build_state := example_state\<rparr>"

definition epoch_world :: world where
  "epoch_world = empty_world\<lparr>now := 20, fs := link_fs 0, build_state := example_state\<rparr>"

definition clean_world :: world where
  "clean_world = empty_world\<lparr>now := 20, fs := link_fs 7, build_state := example_state\<rparr>"

text \<open>Everything in the world but the log and the warning flag.\<close>

definition observable :: "world \<Rightarrow> (path \<times> node) list \<times> path \<times> rat \<times> string list list \<times> pydict" where
  "observable w = (fs w, cwd w, now w, calls w, build_state w)"

text \<open>\<open>done_world\<close>: as \<open>build_world\<close>, with a build state completed at the time 21.\<close>

definition done_world :: world where
  "done_world = build_world\<lparr>build_state := fmupd ''last_completion'' (JNum 21) old_state\<rparr>"

section \<open>Valid links\<close>

text \<open>
  A link of the framework is valid when the link path exists (\<^verbatim>\<open>os.path.exists\<close>, which
  follows links) and the path that \<^verbatim>\<open>attempt_symlink\<close> checks with \<^verbatim>\<open>os.stat\<close> exists.
  \<open>framework_links_valid\<close> says so of the links that lines 488 to 493 ask for.
\<close>

definition link_valid :: "world \<Rightarrow> string \<Rightarrow> string \<Rightarrow> bool" where
  "link_valid w link_path link_to =
     (os_path_exists w link_path
      \<and> os_path_exists w (os_path_abspath w (link_path @ ''/../'' @ link_to)))"

definition framework_links_valid :: "string \<Rightarrow> string \<Rightarrow> Project \<Rightarrow> world \<Rightarrow> bool" where
  "framework_links_valid framework_version executable_name p w =
     (let base_dir = local_built_fw_path p @ ''/'' in
      link_valid w (base_dir @ ''Versions/Current'') framework_version
      \<and> (if os_path_isdir w (base_dir @ ''Versions/Current/Headers'')
         then link_valid w (base_dir @ ''Headers'') ''Versions/Current/Headers'' else True)
      \<and> (if os_path_isdir w (base_dir @ ''Versions/Current/Resources'')
         then link_valid w (base_dir @ ''Resources'') ''Versions/Current/Resources'' else True)
      \<and> link_valid w (base_dir @ executable_name) (''Versions/Current/'' @ executable_name))"

text \<open>\<open>framework_world\<close>: a built framework with headers, before any link is made.\<close>

definition framework_world :: world where
  "framework_world =
     empty_world\<lparr>fs :=
       [([''b''], Dir 1), ([''b'', ''F.framework''], Dir 1),
        ([''b'', ''F.framework'', ''Versions''], Dir 1),
        ([''b'', ''F.framework'', ''Versions'', ''A''], Dir 1),
        ([''b'', ''F.framework'', ''Versions'', ''A'', ''F''], File 5 Unparsable),
        ([''b'', ''F.framework'', ''Versions'', ''A'', ''Headers''], Dir 1),
        ([''b'', ''F.framework'', ''Versions'', ''A'', ''Headers'', ''F.h''],
         File 5 Unparsable)]\<rparr>"

section \<open>Well-formed file systems and the header example\<close>

text \<open>
  A file name proper: not empty, not \<^verbatim>\<open>.\<close> or \<^verbatim>\<open>..\<close>, without a slash. In a well-formed
  table every component of every path is one.
\<close>

definition proper_name :: "string \<Rightarrow> bool" where
  "proper_name c = (c \<noteq> [] \<and> c \<noteq> ''.'' \<and> c \<noteq> ''..'' \<and> CHR ''/'' \<notin> set c)"





section \<open>Tables that grow\<close>

text \<open>
  \<open>grows c f f'\<close>: every entry of the table \<open>f\<close> is still in \<open>f'\<close>, except that a regular
  file may have been rewritten, and then with the content \<open>c\<close>. This is what writing the
  same text to a number of files does to the file system.
\<close>

definition grows :: "content \<Rightarrow> (path \<times> node) list \<Rightarrow> (path \<times> node) list \<Rightarrow> bool" where
  "grows c f f' =
     (\<forall>q n. map_of f q = Some n \<longrightarrow>
        map_of f' q = Some n \<or> (\<exists>m d m'. n = File m d \<and> map_of f' q = Some (File m' c)))"

section \<open>Properties\<close>

subsection \<open>Trimming the slave build's output\<close>

lemma py_split_no_occurrence: "find_sub sep s = None \<Longrightarrow> py_split sep s = [s]"
  by (subst py_split.simps) simp

lemma find_sub_decomp: "find_sub sep s = Some (b, a) \<Longrightarrow> s = b @ sep @ a"
  by (induction s arbitrary: b) (auto split: if_splits option.splits simp: prefix_def)

lemma slave_build_result_no_banner:
  "find_sub separator out = None \<Longrightarrow> slave_build_result out = out"
  by (simp add: slave_build_result_def py_split_no_occurrence)

lemma slave_build_result_one_banner:
  assumes "find_sub separator out = Some (b, a)" and "find_sub separator a = None"
  shows "slave_build_result out = separator @ a" and "out = b @ separator @ a"
proof -
  have sep: "separator \<noteq> []" by (simp add: separator_def)
  have "py_split separator out = [b, a]"
    using assms sep by (simp add: py_split.simps [of separator out] py_split_no_occurrence)
  then show "slave_build_result out = separator @ a"
    by (simp add: slave_build_result_def)
  show "out = b @ separator @ a"
    using assms(1) by (rule find_sub_decomp)
qed

lemma slave_build_result_more_banners:
  assumes "find_sub separator out = Some (b, a)" and "find_sub separator a = Some (b', a')"
  shows "slave_build_result out = separator @ b'"
    and "out = b @ separator @ b' @ separator @ a'"
proof -
  have sep: "separator \<noteq> []" by (simp add: separator_def)
  have "py_split separator out = b # b' # py_split separator a'"
    using assms sep
    by (simp add: py_split.simps [of separator out] py_split.simps [of separator a])
  then show "slave_build_result out = separator @ b'"
    by (simp add: slave_build_result_def)
  show "out = b @ separator @ b' @ separator @ a'"
    using assms by (auto dest!: find_sub_decomp)
qed

text \<open>
  C8 (a slave output with the banner is logged from the first banner on, nothing after
  that point removed). With two banners the code logs the text between the first and the
  second banner only: for the output
  \<^verbatim>\<open>env=== BUILD NATIVE TARGET A ===a=== BUILD NATIVE TARGET B ===b\<close> the log record ends
  after \<^verbatim>\<open>=== BUILD NATIVE TARGET A ===a\<close>; the second target's banner and output are lost.
\<close>

theorem C8_second_banner_cut:
  "log (snd (print_and_call_slave_build
       (\<lambda>cmd w. (Inr (0, ''env=== BUILD NATIVE TARGET A ===a=== BUILD NATIVE TARGET B ===b''), w))
       [''xcodebuild''] ''iphonesimulator''
       \<lparr>fs = [], cwd = [], now = 0, calls = [], log = [], build_state = fmempty,
        issued_warnings = False\<rparr>))
   = [(INFO, ''Cmd xcodebuild'' @ [CHR 0x0A] @ ''=== BUILD NATIVE TARGET A ===a'')]"
  by (simp add: print_and_call_slave_build_def bind_def popen_def log_info_def modify_def
      ret_def slave_build_result_def separator_def py_split.simps)

subsection \<open>The result and state monads\<close>

lemma rbind_Inr [simp]: "rbind (Inr x) k = k x"
  by (simp add: rbind_def)

lemma rbind_Inl [simp]: "rbind (Inl err) k = Inl err"
  by (simp add: rbind_def)

lemma rbind_eq_Inr: "rbind r k = Inr y \<longleftrightarrow> (\<exists>x. r = Inr x \<and> k x = Inr y)"
  by (cases r) simp_all

lemma bind_ret [simp]: "bind (ret x) k = k x"
  by (rule ext) (simp add: bind_def ret_def)

lemma bind_raise [simp]: "bind (raise err) k = raise err"
  by (rule ext) (simp add: bind_def raise_def)

lemma bind_lift_Inr [simp]: "bind (lift (Inr x)) k = k x"
  by (rule ext) (simp add: bind_def lift_def)

lemma bind_lift_Inl [simp]: "bind (lift (Inl err)) k = raise err"
  by (rule ext) (simp add: bind_def lift_def raise_def)

lemma bind_gets [simp]: "bind (gets f) k w = k (f w) w"
  by (simp add: bind_def gets_def)

lemma bind_modify [simp]: "bind (modify f) k w = k () (f w)"
  by (simp add: bind_def modify_def)

lemma bind_eq_Inr:
  "bind m k w = (Inr y, w') \<longleftrightarrow> (\<exists>x w1. m w = (Inr x, w1) \<and> k x w1 = (Inr y, w'))"
  by (auto simp: bind_def split: prod.splits sum.splits)

lemma when_io_True [simp]: "when_io True m = m"
  by (simp add: when_io_def)

lemma when_io_False [simp]: "when_io False m = ret ()"
  by (simp add: when_io_def)

lemma map_result_eq_Inr:
  "map_result f xs = Inr ys \<longleftrightarrow> list_all2 (\<lambda>x y. f x = Inr y) xs ys"
proof (induction xs arbitrary: ys)
  case Nil
  then show ?case by auto
next
  case (Cons x xs)
  show ?case
    by (cases ys) (auto simp: rbind_eq_Inr Cons.IH)
qed

lemma map_result_as_str: "map_result as_str xs = Inr ys \<Longrightarrow> xs = map JStr ys"
  by (induction xs arbitrary: ys)
    (auto simp: rbind_eq_Inr as_str_def split: json.splits)

lemma Project_init_fields:
  assumes "Project_init e pd = Inr p"
  shows "map_result (get_linked_ufw_archive_path e) (local_architectures p)
           = Inr (local_linked_archive_paths p)"
    and "environ e ''DT_TOOLCHAIN_DIR'' = Inr tc \<Longrightarrow> libtool_path p = tc @ ''/usr/bin/libtool''"
    and "environ e ''BUILT_PRODUCTS_DIR'' = Inr b \<Longrightarrow> environ e ''EXECUTABLE_PATH'' = Inr x
           \<Longrightarrow> local_exe_path p = b @ ''/'' @ x"
    and "static_frameworks p = pd_static_frameworks pd"
    and "static_libraries p = pd_static_libraries pd"
    and "compilable_sources p = pd_compilable_sources pd"
    and "public_headers p = pd_public_headers pd"
  using assms
  by (auto simp: Project_init_def rbind_eq_Inr split: if_splits)

subsection \<open>The final link command\<close>

text \<open>
  C5: the final universal link command is the tool and \<^verbatim>\<open>-static\<close>, then the current
  platform's per-architecture archives in the order of the architectures, then the
  archives the slave reported in the build state, in their order, then the executable
  paths of the static frameworks, then those of the static libraries, then \<^verbatim>\<open>-o\<close> and
  the final product path.
\<close>

theorem C5_final_link_command_order:
  assumes "Project_init e pd = Inr p"
    and "get_final_link_command e p state = Inr cmd"
  shows "\<exists>slave fws libs.
           map_result (get_linked_ufw_archive_path e) (local_architectures p)
             = Inr (local_linked_archive_paths p)
         \<and> fmlookup state ''slave_linked_archive_paths'' = Some (JArr (map JStr slave))
         \<and> list_all2 (\<lambda>fw path. get_exe_path e fw = Inr path) (pd_static_frameworks pd) fws
         \<and> list_all2 (\<lambda>lib path. get_exe_path e lib = Inr path) (pd_static_libraries pd) libs
         \<and> cmd = [libtool_path p, ''-static'']
                  @ local_linked_archive_paths p @ slave @ fws @ libs
                  @ [''-o'', local_exe_path p]"
proof -
  from assms(2) obtain tc sl fws libs b x slave where
    tc: "environ e ''DT_TOOLCHAIN_DIR'' = Inr tc"
    and sl: "fmlookup state ''slave_linked_archive_paths'' = Some (JArr sl)"
    and fws: "map_result (get_exe_path e) (static_frameworks p) = Inr fws"
    and libs: "map_result (get_exe_path e) (static_libraries p) = Inr libs"
    and b: "environ e ''BUILT_PRODUCTS_DIR'' = Inr b"
    and x: "environ e ''EXECUTABLE_PATH'' = Inr x"
    and slave: "map_result as_str sl = Inr slave"
    and cmd: "cmd = [tc @ ''/usr/bin/libtool'', ''-static'']
                @ (local_linked_archive_paths p @ slave) @ fws @ libs @ [''-o'', b @ ''/'' @ x]"
    by (auto simp: get_final_link_command_def rbind_eq_Inr getattr_def as_list_def
        split: option.splits json.splits)
  note f = Project_init_fields [OF assms(1)]
  have "sl = map JStr slave"
    using slave by (rule map_result_as_str)
  moreover have "list_all2 (\<lambda>fw path. get_exe_path e fw = Inr path) (pd_static_frameworks pd) fws"
    using fws by (simp add: map_result_eq_Inr f(4))
  moreover have "list_all2 (\<lambda>lib path. get_exe_path e lib = Inr path) (pd_static_libraries pd) libs"
    using libs by (simp add: map_result_eq_Inr f(5))
  moreover have "cmd = [libtool_path p, ''-static'']
                  @ local_linked_archive_paths p @ slave @ fws @ libs
                  @ [''-o'', local_exe_path p]"
    using cmd by (simp add: f(2) [OF tc] f(3) [OF b x])
  ultimately show ?thesis
    using sl f(1) by blast
qed

lemma example_Project_init: "Project_init example_env example_pd = Inr example_project"
  by code_simp

lemma example_final_link_command:
  "get_final_link_command example_env example_project example_state
   = Inr [''/dev/usr/bin/libtool'', ''-static'', ''/o/armv7/F.ufwbuild'', ''/o2/i386/F.ufwbuild'',
          ''/p/fw/G.framework/G'', ''/p/libs/libz.a'', ''-o'', ''/b/F.framework/Versions/A/F'']"
  by code_simp

theorem C5_final_link_command_order_witness:
  "\<exists>slave fws libs.
     fmlookup example_state ''slave_linked_archive_paths'' = Some (JArr (map JStr slave))
     \<and> [''/dev/usr/bin/libtool'', ''-static'', ''/o/armv7/F.ufwbuild'', ''/o2/i386/F.ufwbuild'',
         ''/p/fw/G.framework/G'', ''/p/libs/libz.a'', ''-o'', ''/b/F.framework/Versions/A/F'']
       = [libtool_path example_project, ''-static'']
         @ local_linked_archive_paths example_project @ slave @ fws @ libs
         @ [''-o'', local_exe_path example_project]"
  using C5_final_link_command_order [OF example_Project_init example_final_link_command]
  by blast

subsection \<open>Reloading the build state\<close>

lemma BuildState_reset_eq:
  "BuildState_reset e w =
     (case environ e ''SUPPORTED_PLATFORMS'' of
        Inl err \<Rightarrow> (Inl err, w)
      | Inr supported \<Rightarrow>
          (Inr (), w\<lparr>build_state := reset_dict supported (build_state w)\<rparr>))"
  by (simp add: BuildState_reset_def raise_def modify_def split: sum.splits)

lemma reset_dict_idem: "reset_dict s (reset_dict s d) = reset_dict s d"
  by (rule fmap_ext) (simp add: reset_dict_def)

lemma reset_dict_platforms:
  "fmlookup (reset_dict s d) ''platforms'' = Some (JArr (map JStr (py_split '' '' s)))"
  by (simp add: reset_dict_def)

lemma bind_readonly:
  assumes "snd (m w) = w" and "\<And>x. snd (k x w) = w"
  shows "snd (bind m k w) = w"
  using assms by (cases "m w") (auto simp: bind_def split: sum.splits)

lemma BuildState_load_from_json_readonly: "snd (BuildState_load_from_json f w) = w"
proof -
  have "snd (bind (read_file f) (\<lambda>d. lift (json_loads d)) w) = w"
    by (intro bind_readonly)
      (auto simp: read_file_def lift_def split: option.splits node.splits)
  then show ?thesis
    unfolding BuildState_load_from_json_def
    by (intro bind_readonly) (auto simp: gets_def ret_def)
qed

lemma map_io_readonly:
  assumes "\<And>x w. snd (f x w) = w"
  shows "snd (map_io f xs w) = w"
proof (induction xs)
  case Nil
  show ?case by (simp add: ret_def)
next
  case (Cons x xs)
  show ?case
    unfolding map_io.simps
    by (intro bind_readonly assms Cons.IH) (simp add: ret_def)
qed

lemma load_dicts_readonly: "snd (load_dicts e w) = w"
  unfolding load_dicts_def
  by (intro bind_readonly map_io_readonly BuildState_load_from_json_readonly)
    (simp_all add: gets_def lift_def)

lemma load_dicts_world: "load_dicts e w = (r, w') \<Longrightarrow> w' = w"
  using load_dicts_readonly [of e w] by simp

text \<open>What \<^verbatim>\<open>reload\<close> does once the state files have been loaded without an exception.\<close>

lemma BuildState_reload_loaded:
  assumes sp: "environ e ''SUPPORTED_PLATFORMS'' = Inr supported"
    and ld: "fst (load_dicts e (w\<lparr>build_state := reset_dict supported (build_state w)\<rparr>))
               = Inr (d0 # ds)"
  shows "BuildState_reload e w =
     (if ds = butlast (d0 # ds) \<and> d0 \<noteq> JNull then
        (case d0 of
           JObj loaded \<Rightarrow>
             (Inr (), w\<lparr>build_state := fmadd (reset_dict supported (build_state w)) loaded\<rparr>)
         | _ \<Rightarrow> (Inl AttributeError, w\<lparr>build_state := reset_dict supported (build_state w)\<rparr>))
      else (Inr (), w\<lparr>build_state := reset_dict supported (build_state w)\<rparr>))"
proof -
  let ?w1 = "w\<lparr>build_state := reset_dict supported (build_state w)\<rparr>"
  obtain w2 where "load_dicts e ?w1 = (Inr (d0 # ds), w2)"
    using ld by (cases "load_dicts e ?w1") auto
  moreover from this have "w2 = ?w1" by (rule load_dicts_world)
  ultimately have l: "load_dicts e ?w1 = (Inr (d0 # ds), ?w1)" by simp
  show ?thesis
    unfolding BuildState_reload_def
    by (simp add: bind_def BuildState_reset_eq sp l raise_def modify_def reset_dict_idem
        split: json.splits)
qed

lemma BuildState_reload_raises:
  assumes sp: "environ e ''SUPPORTED_PLATFORMS'' = Inr supported"
    and ld: "fst (load_dicts e (w\<lparr>build_state := reset_dict supported (build_state w)\<rparr>))
               = Inl err"
  shows "BuildState_reload e w
           = (Inl err, w\<lparr>build_state := reset_dict supported (build_state w)\<rparr>)"
proof -
  let ?w1 = "w\<lparr>build_state := reset_dict supported (build_state w)\<rparr>"
  obtain w2 where "load_dicts e ?w1 = (Inl err, w2)"
    using ld by (cases "load_dicts e ?w1") auto
  moreover from this have "w2 = ?w1" by (rule load_dicts_world)
  ultimately have l: "load_dicts e ?w1 = (Inl err, ?w1)" by simp
  show ?thesis
    unfolding BuildState_reload_def
    by (simp add: bind_def BuildState_reset_eq sp l)
qed

lemma corrupt_world_load:
  "fst (load_dicts example_env
          (corrupt_world\<lparr>build_state := reset_dict ''ios sim'' (build_state corrupt_world)\<rparr>))
   = Inl ValueError"
  by code_simp

lemma example_env_supported: "environ example_env ''SUPPORTED_PLATFORMS'' = Inr ''ios sim''"
  by code_simp

lemma example_env_platform: "environ example_env ''PLATFORM_NAME'' = Inr ''ios''"
  by code_simp

lemma corrupt_world_init:
  "BuildState_init example_env (corrupt_world\<lparr>issued_warnings := False\<rparr>)
   = (Inl ValueError,
      corrupt_world\<lparr>build_state := reset_dict ''ios sim''
        (fmupd ''platforms'' (JArr (map JStr (py_split '' '' ''ios sim''))) fmempty)\<rparr>)"
proof -
  let ?w = "corrupt_world\<lparr>build_state :=
      fmupd ''platforms'' (JArr (map JStr (py_split '' '' ''ios sim''))) fmempty\<rparr>"
  have "fst (load_dicts example_env
          (?w\<lparr>build_state := reset_dict ''ios sim'' (build_state ?w)\<rparr>)) = Inl ValueError"
    by code_simp
  from BuildState_reload_raises [OF example_env_supported this]
  show ?thesis
    by (simp add: BuildState_init_def example_env_supported corrupt_world_def empty_world_def)
qed

text \<open>
  C1 (a state file that exists but cannot be read or parsed is treated as missing, never
  fatal, and leaves a freshly reset state). At \<open>corrupt_world\<close>, where the state file of
  one platform is not JSON, \<^verbatim>\<open>reload\<close> does not return: the \<^verbatim>\<open>ValueError\<close> of
  \<^verbatim>\<open>json.loads\<close> leaves it, and since the script constructs its \<^verbatim>\<open>BuildState\<close> before the
  \<^verbatim>\<open>try\<close> block the process ends with that exception, nothing persisted.
\<close>

theorem C1_unparsable_state_file_is_fatal:
  "fst (BuildState_reload example_env corrupt_world) = Inl ValueError
   \<and> fst (main ext_ok Inr example_cfg example_env example_pd corrupt_world) = Uncaught ValueError
   \<and> fs (snd (main ext_ok Inr example_cfg example_env example_pd corrupt_world))
       = fs corrupt_world"
  using BuildState_reload_raises [OF example_env_supported corrupt_world_load]
  by (simp add: main_def example_env_platform corrupt_world_init)

subsection \<open>Frame conditions of the primitives\<close>

lemma keepsD: "keeps g m \<Longrightarrow> m w = (r, w') \<Longrightarrow> g w' = g w"
  by (auto simp: keeps_def dest: spec [where x = w])

lemma keeps_ret [intro!, simp]: "keeps g (ret x)"
  by (simp add: keeps_def ret_def)

lemma keeps_raise [intro!, simp]: "keeps g (raise err)"
  by (simp add: keeps_def raise_def)

lemma keeps_lift [intro!, simp]: "keeps g (lift r)"
  by (simp add: keeps_def lift_def)

lemma keeps_gets [intro!, simp]: "keeps g (gets f)"
  by (simp add: keeps_def gets_def)

lemma keeps_pure [intro!, simp]: "keeps g (\<lambda>w. (f w, w))"
  by (simp add: keeps_def)

lemma keeps_bind [intro!]:
  assumes "keeps g m" and "\<And>x. keeps g (k x)"
  shows "keeps g (bind m k)"
  unfolding keeps_def
proof
  fix w
  obtain r w1 where m: "m w = (r, w1)" by (cases "m w")
  with assms(1) have "g w1 = g w" by (rule keepsD)
  with m assms(2) show "g (snd (bind m k w)) = g w"
    by (cases r) (auto simp: bind_def keeps_def)
qed

lemma keeps_when_io [intro!]: "keeps g m \<Longrightarrow> keeps g (when_io b m)"
  by (cases b) simp_all

lemma keeps_if [intro!]: "keeps g m \<Longrightarrow> keeps g n \<Longrightarrow> keeps g (if b then m else n)"
  by simp

lemma keeps_case_prod [intro!]: "(\<And>a b. keeps g (f a b)) \<Longrightarrow> keeps g (case p of (a, b) \<Rightarrow> f a b)"
  by (cases p) simp

lemma keeps_for_each [intro!]: "(\<And>x. keeps g (f x)) \<Longrightarrow> keeps g (for_each f xs)"
  by (induction xs) auto

lemma keeps_modify: "(\<And>w. g (f w) = g w) \<Longrightarrow> keeps g (modify f)"
  by (simp add: keeps_def modify_def)

lemma keeps_log_info [intro!, simp]:
  "keeps fs (log_info s)" "keeps build_state (log_info s)" "keeps calls (log_info s)"
  "keeps now (log_info s)" "keeps issued_warnings (log_info s)"
  by (simp_all add: log_info_def keeps_modify)

lemma keeps_log_warn [intro!, simp]:
  "keeps fs (log_warn s)" "keeps build_state (log_warn s)" "keeps calls (log_warn s)"
  "keeps now (log_warn s)"
  by (simp_all add: log_warn_def keeps_modify)

lemma keeps_os_makedirs [intro!, simp]:
  "keeps build_state (os_makedirs s)" "keeps calls (os_makedirs s)"
  "keeps issued_warnings (os_makedirs s)" "keeps now (os_makedirs s)" "keeps log (os_makedirs s)"
  by (auto simp: keeps_def os_makedirs_def split: sum.splits)

lemma keeps_write_file [intro!, simp]:
  "keeps build_state (write_file s d)" "keeps calls (write_file s d)"
  "keeps issued_warnings (write_file s d)" "keeps now (write_file s d)"
  "keeps log (write_file s d)"
  by (auto simp: keeps_def write_file_def split: option.splits node.splits)

lemma keeps_save_to_json [intro!, simp]:
  "keeps build_state (BuildState_save_to_json f)" "keeps calls (BuildState_save_to_json f)"
  "keeps issued_warnings (BuildState_save_to_json f)" "keeps now (BuildState_save_to_json f)"
  "keeps log (BuildState_save_to_json f)"
  unfolding BuildState_save_to_json_def Let_def by auto

lemma keeps_persist [intro!, simp]:
  "keeps build_state (BuildState_persist e)" "keeps calls (BuildState_persist e)"
  "keeps issued_warnings (BuildState_persist e)" "keeps now (BuildState_persist e)"
  "keeps log (BuildState_persist e)"
  unfolding BuildState_persist_def by auto

subsection \<open>The platform list of the build state\<close>

lemma butlast_Cons_all_equal: "ds = butlast (d # ds) \<Longrightarrow> set ds \<subseteq> {d}"
proof (induction ds arbitrary: d)
  case Nil
  show ?case by simp
next
  case (Cons a ds)
  have "butlast (d # a # ds) = d # butlast (a # ds)" by simp
  with Cons.prems have "a # ds = d # butlast (a # ds)" by (simp only:)
  then have "a = d \<and> ds = butlast (a # ds)" by (rule list.inject [THEN iffD1])
  then have a: "a = d" and ds: "ds = butlast (a # ds)" by blast+
  from Cons.IH [OF ds] a show ?case by simp
qed

lemma swapped_world_reload:
  "fst (BuildState_reload example_env swapped_world) = Inr ()
   \<and> fmlookup (build_state (snd (BuildState_reload example_env swapped_world))) ''platforms''
       = Some (JArr [JStr ''sim'', JStr ''ios''])"
  by code_simp

text \<open>
  C7 as stated (after any of \<^verbatim>\<open>reset\<close>, \<^verbatim>\<open>reload\<close>, \<^verbatim>\<open>set_slave_properties\<close>, \<^verbatim>\<open>persist\<close> the
  field \<^verbatim>\<open>platforms\<close> equals the list derived from the environment) fails for \<^verbatim>\<open>reload\<close>:
  under \<^verbatim>\<open>SUPPORTED_PLATFORMS="ios sim"\<close>, with both state files holding a state whose
  \<^verbatim>\<open>platforms\<close> entry is \<^verbatim>\<open>["sim", "ios"]\<close>, the merge in \<^verbatim>\<open>reload\<close> takes that entry.
\<close>

theorem C7_reload_takes_platforms_from_file:
  "environ example_env ''SUPPORTED_PLATFORMS'' = Inr ''ios sim''
   \<and> fst (BuildState_reload example_env swapped_world) = Inr ()
   \<and> fmlookup (build_state (snd (BuildState_reload example_env swapped_world))) ''platforms''
       \<noteq> Some (JArr (map JStr (py_split '' '' ''ios sim'')))"
proof -
  have "JArr [JStr ''sim'', JStr ''ios''] \<noteq> JArr (map JStr (py_split '' '' ''ios sim''))"
    by code_simp
  with swapped_world_reload example_env_supported show ?thesis by simp
qed

text \<open>
  C7 as amended: with \<^verbatim>\<open>SUPPORTED_PLATFORMS\<close> set, \<^verbatim>\<open>reset\<close> makes \<^verbatim>\<open>platforms\<close> the list derived
  from the environment, \<^verbatim>\<open>set_slave_properties\<close> leaves \<^verbatim>\<open>platforms\<close> as it is, \<^verbatim>\<open>persist\<close>
  leaves the whole state as it is, and after \<^verbatim>\<open>reload\<close> (however it ends) \<^verbatim>\<open>platforms\<close> is the
  list derived from the environment, unless all state files hold one and the same
  dictionary with a \<^verbatim>\<open>platforms\<close> entry of its own: then it is that entry.
\<close>

theorem C7_platforms_after_operations:
  assumes sp: "environ e ''SUPPORTED_PLATFORMS'' = Inr supported"
  shows "fmlookup (build_state (snd (BuildState_reset e w))) ''platforms''
           = Some (JArr (map JStr (py_split '' '' supported)))
       \<and> fmlookup (build_state (snd (BuildState_set_slave_properties e archs paths fw emb w)))
             ''platforms''
           = fmlookup (build_state w) ''platforms''
       \<and> build_state (snd (BuildState_persist e w)) = build_state w
       \<and> (fmlookup (build_state (snd (BuildState_reload e w))) ''platforms''
             = Some (JArr (map JStr (py_split '' '' supported)))
          \<or> (\<exists>loaded ds v.
                fst (load_dicts e (w\<lparr>build_state := reset_dict supported (build_state w)\<rparr>))
                  = Inr (JObj loaded # ds)
              \<and> set ds \<subseteq> {JObj loaded}
              \<and> fmlookup loaded ''platforms'' = Some v
              \<and> fmlookup (build_state (snd (BuildState_reload e w))) ''platforms'' = Some v))"
proof (intro conjI)
  show "fmlookup (build_state (snd (BuildState_reset e w))) ''platforms''
          = Some (JArr (map JStr (py_split '' '' supported)))"
    by (simp add: BuildState_reset_eq sp reset_dict_platforms)
  show "fmlookup (build_state (snd (BuildState_set_slave_properties e archs paths fw emb w)))
            ''platforms''
          = fmlookup (build_state w) ''platforms''"
    by (cases "environ e ''PLATFORM_NAME''")
      (simp_all add: BuildState_set_slave_properties_def raise_def modify_def)
  show "build_state (snd (BuildState_persist e w)) = build_state w"
    using keeps_persist(1) [of e] by (simp add: keeps_def)
  let ?w1 = "w\<lparr>build_state := reset_dict supported (build_state w)\<rparr>"
  let ?env = "Some (JArr (map JStr (py_split '' '' supported)))"
  let ?after = "fmlookup (build_state (snd (BuildState_reload e w))) ''platforms''"
  show "?after = ?env
        \<or> (\<exists>loaded ds v. fst (load_dicts e ?w1) = Inr (JObj loaded # ds)
              \<and> set ds \<subseteq> {JObj loaded} \<and> fmlookup loaded ''platforms'' = Some v
              \<and> ?after = Some v)"
  proof (cases "fst (load_dicts e ?w1)")
    case (Inl err)
    from BuildState_reload_raises [OF sp this] show ?thesis
      by (simp add: reset_dict_platforms)
  next
    case (Inr dicts)
    show ?thesis
    proof (cases dicts)
      case Nil
      with Inr have "load_dicts e ?w1 = (Inr [], ?w1)"
        using load_dicts_readonly [of e ?w1] by (cases "load_dicts e ?w1") simp
      then have "BuildState_reload e w = (Inl IndexError, ?w1)"
        by (simp add: BuildState_reload_def bind_def BuildState_reset_eq sp raise_def)
      then show ?thesis by (simp add: reset_dict_platforms)
    next
      case (Cons d0 ds)
      with Inr have ld: "fst (load_dicts e ?w1) = Inr (d0 # ds)" by simp
      note r = BuildState_reload_loaded [OF sp ld]
      show ?thesis
      proof (cases "ds = butlast (d0 # ds) \<and> d0 \<noteq> JNull")
        case False
        with r show ?thesis by (auto simp: reset_dict_platforms)
      next
        case True
        then have all: "set ds \<subseteq> {d0}" by (simp add: butlast_Cons_all_equal)
        show ?thesis
        proof (cases d0)
          case (JObj loaded)
          show ?thesis
          proof (cases "fmlookup loaded ''platforms''")
            case None
            with r True JObj show ?thesis
              by (simp add: reset_dict_platforms fmdom_notI)
          next
            case (Some v)
            then have "''platforms'' |\<in>| fmdom loaded" by (simp add: fmlookup_dom_iff)
            with r True JObj Some have "?after = Some v" by simp
            with ld all JObj Some show ?thesis by blast
          qed
        qed (use r True in \<open>simp_all add: reset_dict_platforms\<close>)
      qed
    qed
  qed
qed

theorem C7_platforms_after_operations_witness:
  "fmlookup (build_state (snd (BuildState_reset example_env swapped_world))) ''platforms''
     = Some (JArr (map JStr (py_split '' '' ''ios sim'')))
   \<and> build_state (snd (BuildState_persist example_env swapped_world))
     = build_state swapped_world
   \<and> (fmlookup (build_state (snd (BuildState_reload example_env swapped_world))) ''platforms''
        = Some (JArr (map JStr (py_split '' '' ''ios sim'')))
      \<or> (\<exists>loaded v. fmlookup loaded ''platforms'' = Some v
            \<and> fmlookup (build_state (snd (BuildState_reload example_env swapped_world)))
                 ''platforms'' = Some v))"
  using C7_platforms_after_operations [OF example_env_supported,
      of swapped_world "[]" "[]" "[]" "[]"]
  by blast

subsection \<open>The linking stage\<close>

lemma popen_frame:
  assumes "popen x cmd w = (r, w')"
  shows "calls w' = calls w @ [cmd]" and "build_state w' = build_state w"
    and "log w' = log w" and "issued_warnings w' = issued_warnings w"
  using assms by (auto simp: popen_def split: prod.splits)

lemma print_and_call_frame:
  assumes "print_and_call x cmd w = (r, w')"
  shows "calls w' = calls w @ [cmd]" and "build_state w' = build_state w"
    and "issued_warnings w' = issued_warnings w"
proof -
  let ?w1 = "w\<lparr>log := log w @ [(INFO, ''Cmd '' @ join '' '' cmd)]\<rparr>"
  obtain r1 w2 where p: "popen x cmd ?w1 = (r1, w2)" by (cases "popen x cmd ?w1")
  note f = popen_frame [OF p]
  from assms p have "calls w' = calls w2 \<and> build_state w' = build_state w2
      \<and> issued_warnings w' = issued_warnings w2"
    by (cases r1)
      (auto simp: print_and_call_def log_info_def bind_def modify_def raise_def ret_def
        split: prod.splits if_splits)
  with f show "calls w' = calls w @ [cmd]" and "build_state w' = build_state w"
    and "issued_warnings w' = issued_warnings w"
    by simp_all
qed

lemma for_each_link_calls:
  assumes "for_each (\<lambda>arch. bind (lift (get_link_single_arch_command e arch))
             (print_and_call x)) archs w = (Inr (), w')"
  shows "\<exists>cmds. list_all2 (\<lambda>arch cmd. get_link_single_arch_command e arch = Inr cmd) archs cmds
           \<and> calls w' = calls w @ cmds \<and> build_state w' = build_state w"
  using assms
proof (induction archs arbitrary: w)
  case Nil
  then show ?case by (simp add: ret_def)
next
  case (Cons arch archs)
  from Cons.prems obtain w1 where
    one: "bind (lift (get_link_single_arch_command e arch)) (print_and_call x) w = (Inr (), w1)"
    and rest: "for_each (\<lambda>arch. bind (lift (get_link_single_arch_command e arch))
             (print_and_call x)) archs w1 = (Inr (), w')"
    by (auto simp: bind_eq_Inr)
  from one obtain cmd where cmd: "get_link_single_arch_command e arch = Inr cmd"
    and pc: "print_and_call x cmd w = (Inr (), w1)"
    by (cases "get_link_single_arch_command e arch") (auto simp: raise_def)
  from Cons.IH [OF rest] obtain cmds where
    "list_all2 (\<lambda>arch cmd. get_link_single_arch_command e arch = Inr cmd) archs cmds"
    "calls w' = calls w1 @ cmds" "build_state w' = build_state w1"
    by blast
  with cmd print_and_call_frame [OF pc] show ?case
    by (intro exI [where x = "cmd # cmds"]) simp
qed

text \<open>
  A \<^verbatim>\<open>relink_project\<close> that returns has run the link command of every architecture, in
  order, and then, on the master only, the final link command.
\<close>

lemma relink_project_calls:
  assumes "relink_project x e p w = (Inr (), w')"
  shows "\<exists>cmds. list_all2 (\<lambda>arch cmd. get_link_single_arch_command e arch = Inr cmd)
                  (local_architectures p) cmds
           \<and> (is_master e = Inr False \<and> calls w' = calls w @ cmds
              \<or> is_master e = Inr True
                \<and> (\<exists>final. get_final_link_command e p (build_state w) = Inr final
                      \<and> calls w' = calls w @ cmds @ [final]))"
proof -
  from assms obtain w1 where
    loop: "for_each (\<lambda>arch. bind (lift (get_link_single_arch_command e arch))
             (print_and_call x)) (local_architectures p) w = (Inr (), w1)"
    and last: "bind (lift (is_master e)) (\<lambda>master. when_io master
                 (bind (gets build_state) (\<lambda>state.
                    bind (lift (get_final_link_command e p state)) (print_and_call x)))) w1
               = (Inr (), w')"
    by (auto simp: relink_project_def bind_eq_Inr)
  from for_each_link_calls [OF loop] obtain cmds where
    cmds: "list_all2 (\<lambda>arch cmd. get_link_single_arch_command e arch = Inr cmd)
             (local_architectures p) cmds"
    and c: "calls w1 = calls w @ cmds" and s: "build_state w1 = build_state w"
    by blast
  from last obtain master where m: "is_master e = Inr master"
    by (cases "is_master e") (auto simp: raise_def)
  show ?thesis
  proof (cases master)
    case False
    with last m have "w' = w1" by (simp add: ret_def)
    with cmds c m False show ?thesis by auto
  next
    case True
    with last m obtain final where
      f: "get_final_link_command e p (build_state w1) = Inr final"
      and pc: "print_and_call x final w1 = (Inr (), w')"
      by (cases "get_final_link_command e p (build_state w1)") (auto simp: raise_def)
    from print_and_call_frame(1) [OF pc] c have "calls w' = calls w @ cmds @ [final]" by simp
    with cmds m True f s show ?thesis by auto
  qed
qed

lemma os_path_getmtime_error: "os_path_getmtime w s = Inl err \<Longrightarrow> err = OSError"
  by (auto simp: os_path_getmtime_def split: option.splits node.splits)

text \<open>What the staleness check computes, when the archive paths can be formed.\<close>

lemma link_targets_loop_eq:
  assumes v: "environ e ''CURRENT_VARIANT'' = Inr variant"
    and d: "environ e (''OBJECT_FILE_DIR_'' @ variant) = Inr dir"
    and n: "environ e ''EXECUTABLE_NAME'' = Inr name"
  shows "link_targets_loop e w archs = Inl OSError
           \<and> \<not> list_all (\<lambda>arch. archive_pair_clean w (dir @ ''/'' @ arch @ ''/'' @ name)
                          (dir @ ''/'' @ arch @ ''/'' @ name @ ''.ufwbuild'')) archs
         \<or> link_targets_loop e w archs
             = Inr (list_all (\<lambda>arch. archive_pair_clean w (dir @ ''/'' @ arch @ ''/'' @ name)
                          (dir @ ''/'' @ arch @ ''/'' @ name @ ''.ufwbuild'')) archs)"
proof (induction archs)
  case Nil
  show ?case by simp
next
  case (Cons arch archs)
  have p: "get_linked_archive_path e arch = Inr (dir @ ''/'' @ arch @ ''/'' @ name)"
    using v d n by (simp add: get_linked_archive_path_def)
  have u: "get_linked_ufw_archive_path e arch
             = Inr (dir @ ''/'' @ arch @ ''/'' @ name @ ''.ufwbuild'')"
    by (simp add: get_linked_ufw_archive_path_def p)
  show ?case
  proof (cases "os_path_getmtime w (dir @ ''/'' @ arch @ ''/'' @ name)")
    case (Inl err)
    then show ?thesis
      using os_path_getmtime_error [OF Inl] by (simp add: p u archive_pair_clean_def)
  next
    case lt: (Inr link_time)
    show ?thesis
    proof (cases "os_path_getmtime w (dir @ ''/'' @ arch @ ''/'' @ name @ ''.ufwbuild'')")
      case (Inl err)
      then show ?thesis
        using os_path_getmtime_error [OF Inl] lt by (simp add: p u archive_pair_clean_def)
    next
      case (Inr ufw_time)
      with lt Cons.IH show ?thesis
        by (auto simp: p u archive_pair_clean_def)
    qed
  qed
qed

lemma are_link_targets_clean_eq:
  assumes "environ e ''CURRENT_VARIANT'' = Inr variant"
    and "environ e (''OBJECT_FILE_DIR_'' @ variant) = Inr dir"
    and "environ e ''EXECUTABLE_NAME'' = Inr name"
  shows "are_link_targets_clean e p w
           = Inr (list_all (\<lambda>arch. archive_pair_clean w (dir @ ''/'' @ arch @ ''/'' @ name)
                          (dir @ ''/'' @ arch @ ''/'' @ name @ ''.ufwbuild''))
                    (local_architectures p))"
  using link_targets_loop_eq [OF assms, of w "local_architectures p"]
  by (auto simp: are_link_targets_clean_def)

lemma link_stage_clean:
  "are_link_targets_clean e p w = Inr True \<Longrightarrow> link_stage x e p w = (Inr (), w)"
  by (simp add: link_stage_def bind_def ret_def)

lemma link_stage_stale:
  "are_link_targets_clean e p w = Inr False
   \<Longrightarrow> link_stage x e p w = relink_project x e p w"
  by (simp add: link_stage_def bind_def)

lemma example_env_link_paths:
  "environ example_env ''CURRENT_VARIANT'' = Inr ''n''"
  "environ example_env (''OBJECT_FILE_DIR_'' @ ''n'') = Inr ''/o''"
  "environ example_env ''EXECUTABLE_NAME'' = Inr ''F''"
  by code_simp+

lemma example_is_master: "is_master example_env = Inr True"
  by code_simp

lemma stale_world_link_stage:
  "link_stage ext_ok example_env example_project stale_world
   = (Inr (),
      stale_world\<lparr>calls :=
         [[''/dev/usr/bin/libtool'', ''-static'', ''-arch_only'', ''armv7'', ''-syslibroot'',
           ''/sdk'', ''-L/b'', ''-filelist'', ''/o/armv7/F.LinkFileList'', ''-o'',
           ''/o/armv7/F.ufwbuild''],
          [''/dev/usr/bin/libtool'', ''-static'', ''/o/armv7/F.ufwbuild'',
           ''/o2/i386/F.ufwbuild'', ''/p/fw/G.framework/G'', ''/p/libs/libz.a'', ''-o'',
           ''/b/F.framework/Versions/A/F'']],
        log :=
         [(INFO, ''Cmd /dev/usr/bin/libtool -static -arch_only armv7 -syslibroot /sdk -L/b -filelist /o/armv7/F.LinkFileList -o /o/armv7/F.ufwbuild''),
          (INFO, []),
          (INFO, ''Cmd /dev/usr/bin/libtool -static /o/armv7/F.ufwbuild /o2/i386/F.ufwbuild /p/fw/G.framework/G /p/libs/libz.a -o /b/F.framework/Versions/A/F''),
          (INFO, [])]\<rparr>)"
  by code_simp

lemma clean_world_check:
  "are_link_targets_clean example_env example_project clean_world = Inr True"
  by code_simp

lemma epoch_world_link_stage:
  "calls (snd (link_stage ext_ok example_env example_project epoch_world))
   = [[''/dev/usr/bin/libtool'', ''-static'', ''-arch_only'', ''armv7'', ''-syslibroot'',
       ''/sdk'', ''-L/b'', ''-filelist'', ''/o/armv7/F.LinkFileList'', ''-o'',
       ''/o/armv7/F.ufwbuild''],
      [''/dev/usr/bin/libtool'', ''-static'', ''/o/armv7/F.ufwbuild'',
       ''/o2/i386/F.ufwbuild'', ''/p/fw/G.framework/G'', ''/p/libs/libz.a'', ''-o'',
       ''/b/F.framework/Versions/A/F'']]"
  by code_simp

lemma link_world_times:
  "os_path_getmtime stale_world (local_exe_path example_project) = Inr 5"
  "os_path_getmtime stale_world ''/o/armv7/F.ufwbuild'' = Inr 8"
  "os_path_getmtime epoch_world (local_exe_path example_project) = Inr 5"
  "os_path_getmtime epoch_world ''/o/armv7/F'' = Inr 0"
  "os_path_getmtime epoch_world ''/o/armv7/F.ufwbuild'' = Inr 8"
  by code_simp+

text \<open>
  C3 as stated (the final link is skipped exactly when every per-architecture
  \<^verbatim>\<open>.ufwbuild\<close> archive exists, is readable and is not older than the platform's primary
  linked executable) fails on the master in \<open>stale_world\<close>: the archive (time 8) is
  not older than the framework's executable (time 5), and the final link is run all the
  same, because the code compares with Xcode's linked archive of the architecture (time
  9). It also fails in \<open>epoch_world\<close>, where the archive is older than neither file:
  a modification time of 0 counts as stale.
\<close>

theorem C3_final_link_not_skipped:
  "is_master example_env = Inr True
   \<and> os_path_getmtime stale_world (local_exe_path example_project) = Inr 5
   \<and> os_path_getmtime stale_world ''/o/armv7/F.ufwbuild'' = Inr 8
   \<and> calls (snd (link_stage ext_ok example_env example_project stale_world))
       = [[''/dev/usr/bin/libtool'', ''-static'', ''-arch_only'', ''armv7'', ''-syslibroot'',
           ''/sdk'', ''-L/b'', ''-filelist'', ''/o/armv7/F.LinkFileList'', ''-o'',
           ''/o/armv7/F.ufwbuild''],
          [''/dev/usr/bin/libtool'', ''-static'', ''/o/armv7/F.ufwbuild'',
           ''/o2/i386/F.ufwbuild'', ''/p/fw/G.framework/G'', ''/p/libs/libz.a'', ''-o'',
           ''/b/F.framework/Versions/A/F'']]
   \<and> os_path_getmtime epoch_world (local_exe_path example_project) = Inr 5
   \<and> os_path_getmtime epoch_world ''/o/armv7/F'' = Inr 0
   \<and> os_path_getmtime epoch_world ''/o/armv7/F.ufwbuild'' = Inr 8
   \<and> calls (snd (link_stage ext_ok example_env example_project epoch_world))
       = [[''/dev/usr/bin/libtool'', ''-static'', ''-arch_only'', ''armv7'', ''-syslibroot'',
           ''/sdk'', ''-L/b'', ''-filelist'', ''/o/armv7/F.LinkFileList'', ''-o'',
           ''/o/armv7/F.ufwbuild''],
          [''/dev/usr/bin/libtool'', ''-static'', ''/o/armv7/F.ufwbuild'',
           ''/o2/i386/F.ufwbuild'', ''/p/fw/G.framework/G'', ''/p/libs/libz.a'', ''-o'',
           ''/b/F.framework/Versions/A/F'']]"
  by (simp add: example_is_master link_world_times stale_world_link_stage
      epoch_world_link_stage)

text \<open>
  C3 as amended. With the archive paths formed from \<^verbatim>\<open>CURRENT_VARIANT\<close>,
  \<^verbatim>\<open>OBJECT_FILE_DIR_<variant>\<close> and \<^verbatim>\<open>EXECUTABLE_NAME\<close>, the staleness check succeeds
  exactly when, for every architecture, Xcode's linked archive and the \<^verbatim>\<open>.ufwbuild\<close>
  archive both have a modification time, neither is 0 and the linked archive is not
  newer than the \<^verbatim>\<open>.ufwbuild\<close> archive. Then the linking stage does nothing at all (so
  running it again on the same files links nothing). Otherwise it is \<^verbatim>\<open>relink_project\<close>,
  which, when it returns, has run the link of every architecture and after them, on the
  master, the final universal link; on the slave there is no final link.
\<close>

theorem C3_final_link_when_stale:
  assumes "environ e ''CURRENT_VARIANT'' = Inr variant"
    and "environ e (''OBJECT_FILE_DIR_'' @ variant) = Inr dir"
    and "environ e ''EXECUTABLE_NAME'' = Inr name"
    and "clean = list_all (\<lambda>arch. archive_pair_clean w (dir @ ''/'' @ arch @ ''/'' @ name)
                    (dir @ ''/'' @ arch @ ''/'' @ name @ ''.ufwbuild'')) (local_architectures p)"
  shows "are_link_targets_clean e p w = Inr clean
       \<and> (if clean then link_stage x e p w = (Inr (), w)
          else link_stage x e p w = relink_project x e p w
             \<and> (\<forall>w'. relink_project x e p w = (Inr (), w') \<longrightarrow>
                  (\<exists>cmds. length cmds = length (local_architectures p)
                     \<and> (is_master e = Inr False \<and> calls w' = calls w @ cmds
                        \<or> is_master e = Inr True
                          \<and> (\<exists>final. get_final_link_command e p (build_state w) = Inr final
                                \<and> calls w' = calls w @ cmds @ [final])))))"
proof -
  have c: "are_link_targets_clean e p w = Inr clean"
    using are_link_targets_clean_eq [OF assms(1-3)] assms(4) by simp
  show ?thesis
  proof (cases clean)
    case True
    with c link_stage_clean [of e p w x] show ?thesis by simp
  next
    case False
    have "\<exists>cmds. length cmds = length (local_architectures p)
            \<and> (is_master e = Inr False \<and> calls w' = calls w @ cmds
               \<or> is_master e = Inr True
                 \<and> (\<exists>final. get_final_link_command e p (build_state w) = Inr final
                       \<and> calls w' = calls w @ cmds @ [final]))"
      if "relink_project x e p w = (Inr (), w')" for w'
      using relink_project_calls [OF that] by (auto dest: list_all2_lengthD)
    with c False link_stage_stale [of e p w x] show ?thesis by simp
  qed
qed

theorem C3_final_link_when_stale_witness:
  "are_link_targets_clean example_env example_project stale_world = Inr False
   \<and> link_stage ext_ok example_env example_project stale_world
       = relink_project ext_ok example_env example_project stale_world
   \<and> are_link_targets_clean example_env example_project clean_world = Inr True
   \<and> link_stage ext_ok example_env example_project clean_world = (Inr (), clean_world)"
proof -
  have s: "False = list_all (\<lambda>arch. archive_pair_clean stale_world
              (''/o'' @ ''/'' @ arch @ ''/'' @ ''F'')
              (''/o'' @ ''/'' @ arch @ ''/'' @ ''F'' @ ''.ufwbuild''))
            (local_architectures example_project)"
    by code_simp
  have c: "True = list_all (\<lambda>arch. archive_pair_clean clean_world
              (''/o'' @ ''/'' @ arch @ ''/'' @ ''F'')
              (''/o'' @ ''/'' @ arch @ ''/'' @ ''F'' @ ''.ufwbuild''))
            (local_architectures example_project)"
    by code_simp
  from C3_final_link_when_stale [OF example_env_link_paths s, of ext_ok]
    C3_final_link_when_stale [OF example_env_link_paths c, of ext_ok]
  show ?thesis by simp
qed

text \<open>
  The run of \<^verbatim>\<open>run_build\<close> on the master in \<open>build_world\<close>, after the constructor of
  \<^verbatim>\<open>BuildState\<close> has loaded \<open>old_state\<close>: it returns, having launched the slave build and
  nothing else, with a warning issued (no header is public), the bundles assembled and
  copied, and the state finalised at the time 21.
\<close>

lemma example_init:
  "BuildState_init example_env (build_world\<lparr>issued_warnings := False\<rparr>)
   = (Inr (), build_world\<lparr>build_state := old_state\<rparr>)"
  by code_simp

lemma example_run_build:
  "(case run_build ext_slave example_cfg example_env example_pd
           (build_world\<lparr>build_state := old_state\<rparr>) of
      (r, w) \<Rightarrow>
        r = Inr ()
        \<and> calls w = [[''xcodebuild'', ''-project'', ''/p/F.xcodeproj'', ''-target'', ''F'',
                      ''-configuration'', ''R'', ''-sdk'', ''sim7'', ''BUILT_PRODUCTS_DIR=/b'',
                      ''PROJECT_TEMP_DIR=/t'', ''BUILD_ROOT=/b'', ''TEMP_ROOT=/t'',
                      ''UFW_MASTER_PLATFORM=ios'', ''build'']]
        \<and> issued_warnings w
        \<and> now w = 21
        \<and> fmlookup (build_state w) ''last_completion'' = Some (JNum 21)
        \<and> lstat_node w ''/b/F.framework/Versions/Current'' = Some (Link ''A'')
        \<and> os_path_isdir w ''/b/F.embeddedframework/F.framework''
        \<and> os_path_isdir w ''/s/F.framework''
        \<and> os_path_isdir w ''/s/F.embeddedframework''
        \<and> fst (BuildState_persist example_env
                   (w\<lparr>log := log w @ [(WARNING, ''Build completed with warnings'')]\<rparr>))
            = Inr ())"
  by code_simp


text \<open>
  C4 as stated (whenever the linking stage is reached, the link of every architecture
  runs, whatever the staleness check says) fails in \<open>build_world\<close>: \<^verbatim>\<open>run_build\<close>
  goes through the linking stage and to its end, and the only command it launches is the
  slave's \<^verbatim>\<open>xcodebuild\<close>; the archives are in order, so no \<^verbatim>\<open>libtool\<close> runs.
\<close>

theorem C4_no_link_when_clean:
  "fst (run_build ext_slave example_cfg example_env example_pd
          (build_world\<lparr>build_state := old_state\<rparr>)) = Inr ()
   \<and> calls (snd (run_build ext_slave example_cfg example_env example_pd
          (build_world\<lparr>build_state := old_state\<rparr>)))
       = [[''xcodebuild'', ''-project'', ''/p/F.xcodeproj'', ''-target'', ''F'',
           ''-configuration'', ''R'', ''-sdk'', ''sim7'', ''BUILT_PRODUCTS_DIR=/b'',
           ''PROJECT_TEMP_DIR=/t'', ''BUILD_ROOT=/b'', ''TEMP_ROOT=/t'',
           ''UFW_MASTER_PLATFORM=ios'', ''build'']]"
  using example_run_build by (simp split: prod.splits)

text \<open>
  C4 as amended: the links of the architectures are inside the staleness guard, like the
  final link. When the staleness check succeeds the linking stage launches nothing; when
  it fails the stage is \<^verbatim>\<open>relink_project\<close>, which, when it returns, has launched the link
  command of every architecture, in order, before anything else (master and slave alike).
\<close>

theorem C4_per_arch_link_when_stale:
  assumes "are_link_targets_clean e p w = Inr clean"
  shows "if clean then link_stage x e p w = (Inr (), w)
         else link_stage x e p w = relink_project x e p w
            \<and> (\<forall>w'. relink_project x e p w = (Inr (), w') \<longrightarrow>
                 (\<exists>cmds rest.
                    list_all2 (\<lambda>arch cmd. get_link_single_arch_command e arch = Inr cmd)
                      (local_architectures p) cmds
                    \<and> calls w' = calls w @ cmds @ rest))"
proof (cases clean)
  case True
  with assms link_stage_clean [of e p w x] show ?thesis by simp
next
  case False
  have "\<exists>cmds rest.
          list_all2 (\<lambda>arch cmd. get_link_single_arch_command e arch = Inr cmd)
            (local_architectures p) cmds
          \<and> calls w' = calls w @ cmds @ rest"
    if "relink_project x e p w = (Inr (), w')" for w'
  proof -
    from relink_project_calls [OF that] obtain cmds where
      c: "list_all2 (\<lambda>arch cmd. get_link_single_arch_command e arch = Inr cmd)
            (local_architectures p) cmds"
      and "calls w' = calls w @ cmds \<or> (\<exists>final. calls w' = calls w @ cmds @ [final])"
      by blast
    then have "calls w' = calls w @ cmds @ [] \<or> (\<exists>final. calls w' = calls w @ cmds @ [final])"
      by simp
    with c show ?thesis by blast
  qed
  with assms False link_stage_stale [of e p w x] show ?thesis by simp
qed

lemma stale_world_check:
  "are_link_targets_clean example_env example_project stale_world = Inr False"
  by code_simp

theorem C4_per_arch_link_when_stale_witness:
  "link_stage ext_ok example_env example_project clean_world = (Inr (), clean_world)
   \<and> link_stage ext_ok example_env example_project stale_world
       = relink_project ext_ok example_env example_project stale_world
   \<and> (\<exists>cmds rest.
         list_all2 (\<lambda>arch cmd. get_link_single_arch_command example_env arch = Inr cmd)
           (local_architectures example_project) cmds
         \<and> calls (snd (relink_project ext_ok example_env example_project stale_world))
             = calls stale_world @ cmds @ rest)"
proof -
  have r: "relink_project ext_ok example_env example_project stale_world
           = (Inr (), snd (relink_project ext_ok example_env example_project stale_world))"
    using stale_world_link_stage link_stage_stale [OF stale_world_check, of ext_ok]
    by simp
  from C4_per_arch_link_when_stale [OF clean_world_check, of ext_ok]
    C4_per_arch_link_when_stale [OF stale_world_check, of ext_ok] r
  show ?thesis by simp
qed


subsection \<open>The entry guard of the master\<close>

lemma keeps_issue_warning [intro!, simp]: "keeps observable (issue_warning msg)"
  by (simp add: keeps_def issue_warning_def bind_def modify_def log_warn_def observable_def)

lemma keeps_check_for_derived_data [intro!, simp]:
  "keeps observable (check_for_derived_data_in_search_paths e)"
  unfolding check_for_derived_data_in_search_paths_def by auto

lemma observable_os_path:
  assumes "observable w' = observable w"
  shows "os_path_exists w' s = os_path_exists w s"
    and "os_path_getmtime w' s = os_path_getmtime w s"
proof -
  from assms have f: "fs w' = fs w" "cwd w' = cwd w"
    by (simp_all add: observable_def)
  have "stat_path w' s = stat_path w s"
    by (simp add: stat_path_def start_dir_def f)
  then have n: "stat_node w' s = stat_node w s"
    by (simp add: stat_node_def f cong: option.case_cong)
  show "os_path_exists w' s = os_path_exists w s"
    by (simp add: os_path_exists_def n)
  show "os_path_getmtime w' s = os_path_getmtime w s"
    by (simp add: os_path_getmtime_def n)
qed

lemma bind_pure: "bind (\<lambda>w. (f w, w)) k w = (case f w of Inl err \<Rightarrow> (Inl err, w) | Inr v \<Rightarrow> k v w)"
  by (simp add: bind_def split: sum.splits)

text \<open>
  On the master the value of \<^verbatim>\<open>rebuild_needed\<close> is decided by the executable and the
  completion time alone, and nothing but the log and the warning flag has changed.
\<close>

lemma rebuild_needed_master:
  assumes m: "is_master e = Inr True"
    and r: "rebuild_needed cfg e p w = (Inr b, w1)"
  shows "observable w1 = observable w"
    and "os_path_exists w (local_exe_path p) \<Longrightarrow>
         os_path_getmtime w (local_exe_path p) = Inr mtime \<Longrightarrow>
         fmlookup (build_state w) ''last_completion'' = Some lc \<Longrightarrow> b = py_float_gt mtime lc"
    and "\<not> os_path_exists w (local_exe_path p) \<Longrightarrow> b"
proof -
  let ?checks = "bind (when_io (length (compilable_sources p) = 0)
                 (bind (lift (environ e ''TARGET_NAME'')) (\<lambda>target_name.
                    raise (Exception (''No compilable sources found. Please add at least one ''
                      @ ''source file to build target '' @ target_name @ ''.''))))) (\<lambda>_.
         bind (when_io (config_warn_derived_data cfg)
                 (check_for_derived_data_in_search_paths e)) (\<lambda>_.
         when_io (config_warn_no_public_headers cfg
                         \<and> length (public_headers p) = 0)
                 (bind (lift (environ e ''TARGET_NAME'')) (\<lambda>target_name.
                    issue_warning (''No headers in build target '' @ target_name
                      @ '' were marked public. Please move at least one header to ''
                      @ [CHR 0x22] @ ''Public'' @ [CHR 0x22] @ '' in the ''
                      @ [CHR 0x22] @ ''Copy Headers'' @ [CHR 0x22] @ '' build phase.'')))))"
  let ?guard = "\<lambda>u::unit. bind (gets (\<lambda>w. os_path_exists w (local_exe_path p))) (\<lambda>ex.
           if ex then
             bind (\<lambda>w. (os_path_getmtime w (local_exe_path p), w)) (\<lambda>mtime.
             bind (gets build_state) (\<lambda>state.
             bind (lift (getattr state ''last_completion'')) (\<lambda>last_completion.
               ret (py_float_gt mtime last_completion))))
           else ret True)"
  have split: "rebuild_needed cfg e p = bind ?checks ?guard"
    by (rule ext) (simp add: rebuild_needed_def m bind_def split: prod.splits sum.splits)
  have k: "keeps observable ?checks" by auto
  from r obtain u w2 where c: "?checks w = (Inr u, w2)" and g: "?guard u w2 = (Inr b, w1)"
    by (auto simp: split bind_eq_Inr)
  from keepsD [OF k c] have o: "observable w2 = observable w" .
  note p = observable_os_path [OF o]
  from g have w1: "w1 = w2"
    by (auto simp: bind_def gets_def lift_def ret_def split: if_splits sum.splits)
  with o show "observable w1 = observable w" by simp
  from o have bs: "build_state w2 = build_state w" by (simp add: observable_def)
  show "b = py_float_gt mtime lc"
    if "os_path_exists w (local_exe_path p)" "os_path_getmtime w (local_exe_path p) = Inr mtime"
      "fmlookup (build_state w) ''last_completion'' = Some lc"
    using g that by (simp add: p bs getattr_def bind_pure ret_def)
  show b if "\<not> os_path_exists w (local_exe_path p)"
    using g that by (simp add: p ret_def)
qed

lemma example_run_calls:
  "calls (snd (run_build ext_slave example_cfg example_env example_pd
          (build_world\<lparr>build_state := old_state\<rparr>)))
   = [[''xcodebuild'', ''-project'', ''/p/F.xcodeproj'', ''-target'', ''F'',
       ''-configuration'', ''R'', ''-sdk'', ''sim7'', ''BUILT_PRODUCTS_DIR=/b'',
       ''PROJECT_TEMP_DIR=/t'', ''BUILD_ROOT=/b'', ''TEMP_ROOT=/t'',
       ''UFW_MASTER_PLATFORM=ios'', ''build'']]
   \<and> os_path_isdir (snd (run_build ext_slave example_cfg example_env example_pd
          (build_world\<lparr>build_state := old_state\<rparr>))) ''/b/F.embeddedframework/F.framework''
   \<and> lstat_node (snd (run_build ext_slave example_cfg example_env example_pd
          (build_world\<lparr>build_state := old_state\<rparr>))) ''/b/F.framework/Versions/Current''
       = Some (Link ''A'')"
  using example_run_build by (simp split: prod.splits)

lemma build_world_executable:
  "os_path_exists (build_world\<lparr>build_state := old_state\<rparr>) (local_exe_path example_project)"
  "os_path_getmtime (build_world\<lparr>build_state := old_state\<rparr>) (local_exe_path example_project)
     = Inr 10"
  "fmlookup (build_state (build_world\<lparr>build_state := old_state\<rparr>)) ''last_completion''
     = Some (JNum 3)"
  by code_simp+

text \<open>
  C2 as stated (a master whose executable exists and is newer than the persisted
  completion time skips the build) fails in \<open>build_world\<close>: the executable (time 10)
  is newer than the completion time 3 of the loaded state, and \<^verbatim>\<open>run_build\<close> launches the
  slave build, makes the symbolic links and assembles the embedded framework.
\<close>

theorem C2_newer_executable_rebuilds:
  "is_master example_env = Inr True
   \<and> os_path_exists (build_world\<lparr>build_state := old_state\<rparr>) (local_exe_path example_project)
   \<and> os_path_getmtime (build_world\<lparr>build_state := old_state\<rparr>) (local_exe_path example_project)
       = Inr 10
   \<and> fmlookup (build_state (build_world\<lparr>build_state := old_state\<rparr>)) ''last_completion''
       = Some (JNum 3)
   \<and> calls (snd (run_build ext_slave example_cfg example_env example_pd
          (build_world\<lparr>build_state := old_state\<rparr>)))
       = [[''xcodebuild'', ''-project'', ''/p/F.xcodeproj'', ''-target'', ''F'',
           ''-configuration'', ''R'', ''-sdk'', ''sim7'', ''BUILT_PRODUCTS_DIR=/b'',
           ''PROJECT_TEMP_DIR=/t'', ''BUILD_ROOT=/b'', ''TEMP_ROOT=/t'',
           ''UFW_MASTER_PLATFORM=ios'', ''build'']]
   \<and> os_path_isdir (snd (run_build ext_slave example_cfg example_env example_pd
          (build_world\<lparr>build_state := old_state\<rparr>))) ''/b/F.embeddedframework/F.framework''
   \<and> lstat_node (snd (run_build ext_slave example_cfg example_env example_pd
          (build_world\<lparr>build_state := old_state\<rparr>))) ''/b/F.framework/Versions/Current''
       = Some (Link ''A'')"
  using example_is_master build_world_executable example_run_calls by simp

text \<open>
  C2 as amended: on a master invocation whose executable exists, the build is needed
  exactly when the executable is newer than the completion time of the build state
  (\<^verbatim>\<open>getmtime > last_completion\<close>). When it is not newer, \<^verbatim>\<open>run_build\<close> returns right after
  the guard: the file system, the commands launched, the clock and the build state are
  as before (no slave invocation, no linking, no header restoration, no bundle
  assembly); only warnings may have been logged.
\<close>

theorem C2_skip_when_not_newer:
  assumes "Project_init e pd = Inr p"
    and "is_master e = Inr True"
    and "os_path_exists w (local_exe_path p)"
    and "os_path_getmtime w (local_exe_path p) = Inr mtime"
    and "fmlookup (build_state w) ''last_completion'' = Some last_completion"
    and "rebuild_needed cfg e p w = (Inr rebuild, w1)"
  shows "rebuild = py_float_gt mtime last_completion
       \<and> observable w1 = observable w
       \<and> (if py_float_gt mtime last_completion
          then run_build x cfg e pd w
               = bind (exchange_state x e p) (\<lambda>_.
                 bind (link_stage x e p) (\<lambda>_.
                 bind (when_io (config_deep_header_hierarchy cfg)
                         (build_deep_header_hierarchy cfg e p)) (\<lambda>_.
                 bind (add_symlinks_to_framework e p) (\<lambda>_.
                 bind (build_embedded_framework e p) (\<lambda>_.
                   finish_master e p))))) w1
          else run_build x cfg e pd w = (Inr (), w1))"
proof -
  note r = rebuild_needed_master [OF assms(2) assms(6)]
  have b: "rebuild = py_float_gt mtime last_completion"
    using r(2) [OF assms(3-5)] .
  with assms(1) assms(6) r(1) show ?thesis
    by (simp add: run_build_def bind_def ret_def)
qed

lemma done_world_guard:
  "os_path_exists done_world (local_exe_path example_project)"
  "os_path_getmtime done_world (local_exe_path example_project) = Inr 10"
  "fmlookup (build_state done_world) ''last_completion'' = Some (JNum 21)"
  "fst (rebuild_needed example_cfg example_env example_project done_world) = Inr False"
  by code_simp+

theorem C2_skip_when_not_newer_witness:
  "fst (run_build ext_slave example_cfg example_env example_pd done_world) = Inr ()
   \<and> observable (snd (run_build ext_slave example_cfg example_env example_pd done_world))
       = observable done_world"
proof -
  have g: "rebuild_needed example_cfg example_env example_project done_world
           = (Inr False, snd (rebuild_needed example_cfg example_env example_project done_world))"
    using done_world_guard(4)
    by (cases "rebuild_needed example_cfg example_env example_project done_world") simp
  have "\<not> py_float_gt 10 (JNum 21)" by (simp add: py_float_gt_def)
  with C2_skip_when_not_newer [OF example_Project_init example_is_master
      done_world_guard(1-3) g, of ext_slave]
  show ?thesis by simp
qed



subsection \<open>Paths as strings\<close>

lemma py_split_nonempty: "py_split sep s \<noteq> []"
  by (subst py_split.simps) (simp split: option.splits)

lemma find_sub_single_absent: "c \<notin> set s \<Longrightarrow> find_sub [c] s = None"
  by (induction s) auto

lemma py_split_single_Cons:
  "py_split [c] (x # s) =
     (if x = c then [] # py_split [c] s
      else (x # hd (py_split [c] s)) # tl (py_split [c] s))"
proof (cases "x = c")
  case True
  then show ?thesis by (simp add: py_split.simps [of "[c]" "c # s"])
next
  case False
  show ?thesis
  proof (cases "find_sub [c] s")
    case None
    with False show ?thesis
      by (simp add: py_split.simps [of "[c]" "x # s"] py_split.simps [of "[c]" s])
  next
    case (Some ba)
    with False show ?thesis
      by (cases ba)
        (simp add: py_split.simps [of "[c]" "x # s"] py_split.simps [of "[c]" s])
  qed
qed

lemma py_split_single_append:
  "py_split [c] (a @ c # b) = py_split [c] a @ py_split [c] b"
proof (induction a)
  case Nil
  show ?case
    by (simp add: py_split_single_Cons) (simp add: py_split.simps [of "[c]" "[]"])
next
  case (Cons x a)
  then show ?case
    using py_split_nonempty [of "[c]" a] by (simp add: py_split_single_Cons)
qed

lemma py_split_single_absent: "c \<notin> set s \<Longrightarrow> py_split [c] s = [s]"
  by (simp add: py_split.simps [of "[c]" s] find_sub_single_absent)

lemma split_slash_child:
  "proper_name name \<Longrightarrow> split_slash (path @ CHR ''/'' # name) = split_slash path @ [name]"
  by (simp add: split_slash_def proper_name_def py_split_single_append py_split_single_absent)

text \<open>The entry that \<^verbatim>\<open>lstat\<close> looks at for a child of a directory given by its path.\<close>

lemma lstat_path_child:
  assumes "proper_name name" and "path \<noteq> []"
  shows "lstat_path w (path @ CHR ''/'' # name) =
     (case stat_path w path of
        None \<Rightarrow> None
      | Some d \<Rightarrow> (case node_at (fs w) d of Some (Dir m) \<Rightarrow> Some (d @ [name]) | _ \<Rightarrow> None))"
proof -
  have a: "is_abs (path @ CHR ''/'' # name) = is_abs path"
    using assms(2) by (cases path) (simp_all add: is_abs_def)
  from assms(1) have n: "name \<noteq> []" "name \<noteq> ''.''" "name \<noteq> ''..''"
    by (auto simp: proper_name_def)
  have "lstat_path w (path @ CHR ''/'' # name) =
     (case resolve (fs w) MAXSYMLINKS (start_dir w path) (split_slash path) of
        None \<Rightarrow> None
      | Some d \<Rightarrow> (case node_at (fs w) d of Some (Dir m) \<Rightarrow> Some (d @ [name]) | _ \<Rightarrow> None))"
    using n
    by (simp add: lstat_path_def split_slash_child [OF assms(1)] start_dir_def a
        cong: option.case_cong node.case_cong)
  with assms(2) show ?thesis
    by (simp add: stat_path_def)
qed

lemma start_dir_log [simp]: "start_dir (w\<lparr>log := l\<rparr>) s = start_dir w s"
  by (simp add: start_dir_def)

lemma stat_path_log [simp]: "stat_path (w\<lparr>log := l\<rparr>) s = stat_path w s"
  by (simp add: stat_path_def)

lemma lstat_path_log [simp]: "lstat_path (w\<lparr>log := l\<rparr>) s = lstat_path w s"
  by (simp add: lstat_path_def Let_def cong: if_cong option.case_cong node.case_cong)

subsection \<open>What exists after files were added or removed\<close>



subsection \<open>Writing the same text to several files\<close>

lemma grows_refl: "grows c f f"
  by (simp add: grows_def)

lemma grows_trans: "grows c f g \<Longrightarrow> grows c g h \<Longrightarrow> grows c f h"
  unfolding grows_def by (metis node.inject(1))

lemma grows_append: "map_of f p = None \<Longrightarrow> grows c f (f @ [(p, n)])"
  by (auto simp: grows_def map_add_def split: option.splits)

lemma grows_update:
  "map_of f p = Some (File m d) \<Longrightarrow> grows c f (AList.update p (File m' c) f)"
  by (auto simp: grows_def update_conv')

lemma grows_Dir: "grows c f g \<Longrightarrow> map_of f p = Some (Dir m) \<Longrightarrow> map_of g p = Some (Dir m)"
  by (auto simp: grows_def)

lemma grows_Link: "grows c f g \<Longrightarrow> map_of f p = Some (Link t) \<Longrightarrow> map_of g p = Some (Link t)"
  by (auto simp: grows_def)

lemma grows_File:
  "grows c f g \<Longrightarrow> map_of f p = Some (File m d) \<Longrightarrow> \<exists>m' d'. map_of g p = Some (File m' d')"
  unfolding grows_def by blast

lemma grows_node_at_Dir:
  "grows c f g \<Longrightarrow> node_at f p = Some (Dir m) \<Longrightarrow> node_at g p = Some (Dir m)"
  by (auto simp: node_at_def grows_def split: if_splits)

lemma grows_node_at_written:
  "grows c f g \<Longrightarrow> node_at f p = Some (File m c) \<Longrightarrow> \<exists>m'. node_at g p = Some (File m' c)"
  by (auto simp: node_at_def grows_def split: if_splits)

lemma resolve_grows:
  "resolve f fuel cur rest = Some r \<Longrightarrow> grows c f g \<Longrightarrow> resolve g fuel cur rest = Some r"
proof (induction f fuel cur rest rule: resolve.induct)
  case (1 f fuel cur)
  then show ?case by simp
next
  case (2 f fuel cur c' rest)
  note sub = "2.prems"(2)
  show ?case
  proof (cases "c' = [] \<or> c' = ''.''")
    case True
    with 2 show ?thesis by auto
  next
    case False
    show ?thesis
    proof (cases "c' = ''..''")
      case True
      with False 2 show ?thesis by auto
    next
      case ndd: False
      from "2.prems"(1) False ndd obtain n where n: "map_of f (cur @ [c']) = Some n"
        by (auto split: option.splits)
      show ?thesis
      proof (cases n)
        case (File m d)
        with n grows_File [OF sub] obtain m' d' where "map_of g (cur @ [c']) = Some (File m' d')"
          by blast
        with "2.prems"(1) False ndd n File show ?thesis by (auto split: if_splits)
      next
        case (Dir m)
        with n grows_Dir [OF sub] have g: "map_of g (cur @ [c']) = Some (Dir m)" by blast
        with "2.prems"(1) "2.IH"(3) [OF False ndd n Dir _ sub] False ndd n Dir show ?thesis
          by auto
      next
        case (Link t)
        with n grows_Link [OF sub] have g: "map_of g (cur @ [c']) = Some (Link t)" by blast
        from "2.prems"(1) False ndd n Link have fuel: "fuel \<noteq> 0" by (auto split: if_splits)
        with "2.prems"(1) "2.IH"(4) [OF False ndd n Link fuel _ sub] False ndd n g Link
        show ?thesis by auto
      qed
    qed
  qed
qed

text \<open>Resolving a path and then a child of the directory found.\<close>

lemma resolve_append:
  "resolve f fuel cur xs = Some d \<Longrightarrow> node_at f d = Some (Dir m)
   \<Longrightarrow> \<exists>fuel'. resolve f fuel cur (xs @ rest) = resolve f fuel' d rest"
proof (induction f fuel cur xs rule: resolve.induct)
  case (1 f fuel cur)
  then show ?case by auto
next
  case (2 f fuel cur c' xs)
  show ?case
  proof (cases "c' = [] \<or> c' = ''.''")
    case True
    with 2 show ?thesis by auto
  next
    case False
    show ?thesis
    proof (cases "c' = ''..''")
      case True
      with False 2 show ?thesis by auto
    next
      case ndd: False
      from "2.prems"(1) False ndd obtain n where n: "map_of f (cur @ [c']) = Some n"
        by (auto split: option.splits)
      show ?thesis
      proof (cases n)
        case (File m' d')
        with "2.prems" False ndd n have "xs = []" "d = cur @ [c']"
          by (auto split: if_splits)
        with "2.prems"(2) n File show ?thesis by (simp add: node_at_def)
      next
        case (Dir m')
        with "2.prems" "2.IH"(3) [OF False ndd n Dir] False ndd n show ?thesis
          by auto
      next
        case (Link t)
        from "2.prems"(1) False ndd n Link have fuel: "fuel \<noteq> 0" by (auto split: if_splits)
        with "2.prems" "2.IH"(4) [OF False ndd n Link fuel] False ndd n Link
        show ?thesis by auto
      qed
    qed
  qed
qed

lemma resolve_child_file:
  assumes "resolve f fuel cur xs = Some d" and "node_at f d = Some (Dir m)"
    and "proper_name name" and "map_of f (d @ [name]) = Some (File m' c)"
  shows "resolve f fuel cur (xs @ [name]) = Some (d @ [name])"
proof -
  from resolve_append [OF assms(1,2)] obtain fuel' where
    "resolve f fuel cur (xs @ [name]) = resolve f fuel' d [name]" by blast
  with assms(3,4) show ?thesis by (simp add: proper_name_def)
qed

lemma mkdirs_from_grows:
  "mkdirs_from f t cur created rest = Inr f' \<Longrightarrow> grows c f f'"
proof (induction f t cur created rest rule: mkdirs_from.induct)
  case (1 f t cur created)
  then show ?case by (auto simp: grows_refl split: if_splits)
next
  case (2 f t cur created c' rest)
  show ?case
  proof (cases "c' = [] \<or> c' = ''.''")
    case True
    with 2 show ?thesis by auto
  next
    case False
    show ?thesis
    proof (cases "c' = ''..''")
      case True
      with False 2 show ?thesis by auto
    next
      case ndd: False
      show ?thesis
      proof (cases "map_of f (cur @ [c'])")
        case None
        with "2.prems" False ndd
        have "mkdirs_from (f @ [(cur @ [c'], Dir t)]) t (cur @ [c']) True rest = Inr f'"
          by simp
        from "2.IH"(3) [OF False ndd None this] grows_append [OF None]
        show ?thesis by (blast intro: grows_trans)
      next
        case (Some n)
        show ?thesis
        proof (cases n)
          case (File m d)
          with "2.prems" False ndd Some show ?thesis by simp
        next
          case (Dir m)
          with "2.prems" "2.IH"(4) [OF False ndd Some Dir] False ndd Some show ?thesis by simp
        next
          case (Link l)
          with "2.prems" False ndd Some obtain q m where
            q: "resolve f MAXSYMLINKS cur [c'] = Some q" and d: "node_at f q = Some (Dir m)"
            and r: "mkdirs_from f t q False rest = Inr f'"
            by (auto split: option.splits node.splits)
          from "2.IH"(5) [OF False ndd Some Link q d refl r] show ?thesis .
        qed
      qed
    qed
  qed
qed

lemma stat_path_grows:
  assumes "stat_path w s = Some d" and "grows c (fs w) (fs w')" and "cwd w' = cwd w"
  shows "stat_path w' s = Some d"
proof -
  from assms(1) have s: "s \<noteq> []"
    and r: "resolve (fs w) MAXSYMLINKS (start_dir w s) (split_slash s) = Some d"
    by (auto simp: stat_path_def split: if_splits)
  from assms(3) have "start_dir w' s = start_dir w s" by (simp add: start_dir_def)
  with resolve_grows [OF r assms(2)] s show ?thesis by (simp add: stat_path_def)
qed

lemma stat_node_grows:
  assumes "stat_node w s = Some (File m c)" and "grows c (fs w) (fs w')" and "cwd w' = cwd w"
  shows "\<exists>m'. stat_node w' s = Some (File m' c)"
proof -
  from assms(1) obtain d where d: "stat_path w s = Some d"
    and n: "node_at (fs w) d = Some (File m c)"
    by (auto simp: stat_node_def split: option.splits)
  from stat_path_grows [OF d assms(2,3)] grows_node_at_written [OF assms(2) n]
  show ?thesis by (auto simp: stat_node_def)
qed

lemma stat_path_child:
  assumes "proper_name name" and "path \<noteq> []"
  shows "stat_path w (path @ CHR ''/'' # name)
         = resolve (fs w) MAXSYMLINKS (start_dir w path) (split_slash path @ [name])"
proof -
  have "is_abs (path @ CHR ''/'' # name) = is_abs path"
    using assms(2) by (cases path) (simp_all add: is_abs_def)
  then show ?thesis
    by (simp add: stat_path_def split_slash_child [OF assms(1)] start_dir_def)
qed

text \<open>A file that has been written holds what was written.\<close>

lemma write_file_child:
  assumes wr: "write_file (path @ CHR ''/'' # name) c w = (Inr (), w')"
    and n: "proper_name name" and p: "path \<noteq> []"
  shows "grows c (fs w) (fs w') \<and> cwd w' = cwd w
       \<and> (\<exists>m. stat_node w' (path @ CHR ''/'' # name) = Some (File m c))"
proof -
  let ?s = "path @ CHR ''/'' # name"
  from wr obtain q where q: "lstat_path w ?s = Some q"
    by (auto simp: write_file_def split: option.splits)
  then obtain d m0 where d: "stat_path w path = Some d"
    and dir: "node_at (fs w) d = Some (Dir m0)" and qd: "q = d @ [name]"
    by (auto simp: lstat_path_child [OF n p] split: option.splits node.splits)
  from d p have r: "resolve (fs w) MAXSYMLINKS (start_dir w path) (split_slash path) = Some d"
    by (simp add: stat_path_def)
  have at: "node_at (fs w) q = map_of (fs w) q" by (simp add: node_at_def qd)
  show ?thesis
  proof (cases "map_of (fs w) q")
    case None
    with wr q at have w': "w' = w\<lparr>fs := fs w @ [(q, File (now w) c)]\<rparr>"
      by (simp add: write_file_def)
    have g: "grows c (fs w) (fs w')" unfolding w' using grows_append [OF None] by simp
    have f: "map_of (fs w') (d @ [name]) = Some (File (now w) c)"
      using None by (simp add: w' qd map_add_def)
    have "stat_path w' ?s
          = resolve (fs w') MAXSYMLINKS (start_dir w path) (split_slash path @ [name])"
      by (simp add: stat_path_child [OF n p] start_dir_def w')
    with resolve_child_file [OF resolve_grows [OF r g] grows_node_at_Dir [OF g dir] n f]
    have "stat_path w' ?s = Some (d @ [name])"
      by simp
    with f have "stat_node w' ?s = Some (File (now w) c)"
      by (simp add: stat_node_def node_at_def)
    with g show ?thesis by (auto simp: w')
  next
    case (Some nd)
    show ?thesis
    proof (cases nd)
      case (File m d')
      with wr q at Some have w': "w' = w\<lparr>fs := AList.update q (File (now w) c) (fs w)\<rparr>"
        by (simp add: write_file_def)
      from Some File have old: "map_of (fs w) q = Some (File m d')" by simp
      have g: "grows c (fs w) (fs w')" unfolding w' using grows_update [OF old] by simp
      have f: "map_of (fs w') (d @ [name]) = Some (File (now w) c)"
        by (simp add: w' qd update_conv')
      have "stat_path w' ?s
            = resolve (fs w') MAXSYMLINKS (start_dir w path) (split_slash path @ [name])"
        by (simp add: stat_path_child [OF n p] start_dir_def w')
      with resolve_child_file [OF resolve_grows [OF r g] grows_node_at_Dir [OF g dir] n f]
      have "stat_path w' ?s = Some (d @ [name])"
        by simp
      with f have "stat_node w' ?s = Some (File (now w) c)"
        by (simp add: stat_node_def node_at_def)
      with g show ?thesis by (auto simp: w')
    next
      case (Dir m)
      with wr q at Some show ?thesis by (simp add: write_file_def)
    next
      case (Link t)
      with wr q at Some obtain t' m d' where t': "stat_path w ?s = Some t'"
        and old: "node_at (fs w) t' = Some (File m d')"
        and w': "w' = w\<lparr>fs := AList.update t' (File (now w) c) (fs w)\<rparr>"
        by (auto simp: write_file_def split: option.splits node.splits)
      from old have mo: "map_of (fs w) t' = Some (File m d')" and ne: "t' \<noteq> []"
        by (auto simp: node_at_def split: if_splits)
      have g: "grows c (fs w) (fs w')" unfolding w' using grows_update [OF mo] by simp
      have c: "cwd w' = cwd w" by (simp add: w')
      from ne have "node_at (fs w') t' = Some (File (now w) c)"
        by (simp add: w' node_at_def update_conv')
      with stat_path_grows [OF t' g c] have "stat_node w' ?s = Some (File (now w) c)"
        by (simp add: stat_node_def)
      with g c show ?thesis by auto
    qed
  qed
qed

lemma os_makedirs_grows:
  assumes "os_makedirs s w = (Inr (), w')"
  shows "grows c (fs w) (fs w') \<and> cwd w' = cwd w \<and> build_state w' = build_state w"
  using assms
  by (auto simp: os_makedirs_def split: if_splits sum.splits dest: mkdirs_from_grows)

text \<open>\<^verbatim>\<open>save_to_json\<close> leaves the state in the file it names and changes no other text.\<close>

lemma save_to_json_child:
  assumes sv: "BuildState_save_to_json (path @ CHR ''/'' # name) w = (Inr (), w')"
    and n: "proper_name name" and p: "path \<noteq> []"
  shows "grows (Json (JObj (build_state w))) (fs w) (fs w') \<and> cwd w' = cwd w
       \<and> build_state w' = build_state w
       \<and> (\<exists>m. stat_node w' (path @ CHR ''/'' # name)
               = Some (File m (Json (JObj (build_state w)))))"
proof -
  let ?s = "path @ CHR ''/'' # name"
  let ?c = "Json (JObj (build_state w))"
  from sv obtain w1 where
    mk: "when_io (\<not> os_path_isdir w (os_path_dirname ?s)) (os_makedirs (os_path_dirname ?s)) w
         = (Inr (), w1)"
    and wr: "write_file ?s (Json (JObj (build_state w1))) w1 = (Inr (), w')"
    by (auto simp: BuildState_save_to_json_def Let_def bind_eq_Inr)
  have one: "grows ?c (fs w) (fs w1) \<and> cwd w1 = cwd w \<and> build_state w1 = build_state w"
  proof (cases "os_path_isdir w (os_path_dirname ?s)")
    case True
    with mk show ?thesis by (simp add: ret_def grows_refl)
  next
    case False
    with mk have "os_makedirs (os_path_dirname ?s) w = (Inr (), w1)" by simp
    then show ?thesis by (rule os_makedirs_grows)
  qed
  then have b: "build_state w1 = build_state w" by simp
  from wr have wr': "write_file ?s ?c w1 = (Inr (), w')" by (simp only: b)
  have bs: "build_state w' = build_state w1"
    by (rule keepsD [OF keeps_write_file(1) wr'])
  from write_file_child [OF wr' n p] one bs show ?thesis
    by (auto intro: grows_trans)
qed

lemma proper_state_file_name: "proper_name ''ufw_build_state.json''"
  by (simp add: proper_name_def)

lemma get_platform_path_child:
  assumes "BuildState_get_platform_path e p = Inr path"
  shows "\<exists>dir. dir \<noteq> [] \<and> path = dir @ CHR ''/'' # ''ufw_build_state.json''"
proof -
  from assms obtain temp_dir configuration plat product variant where
    "path = temp_dir @ ''/'' @ configuration @ ''-'' @ plat @ ''/'' @ product
            @ ''.build/Objects-'' @ variant @ ''/ufw_build_state.json''"
    by (auto simp: BuildState_get_platform_path_def rbind_eq_Inr)
  then have "path = (temp_dir @ ''/'' @ configuration @ ''-'' @ plat @ ''/'' @ product
            @ ''.build/Objects-'' @ variant) @ CHR ''/'' # ''ufw_build_state.json''"
    by simp
  then show ?thesis by blast
qed

lemma persist_loop:
  assumes "for_each (\<lambda>platform.
             bind (lift (BuildState_get_platform_path e platform)) BuildState_save_to_json)
             ps w = (Inr (), w')"
  shows "grows (Json (JObj (build_state w))) (fs w) (fs w') \<and> cwd w' = cwd w
       \<and> build_state w' = build_state w
       \<and> (\<forall>p\<in>set ps. \<exists>path m. BuildState_get_platform_path e p = Inr path
              \<and> stat_node w' path = Some (File m (Json (JObj (build_state w)))))"
  using assms
proof (induction ps arbitrary: w)
  case Nil
  then show ?case by (simp add: ret_def grows_refl)
next
  case (Cons p ps)
  let ?c = "Json (JObj (build_state w))"
  from Cons.prems obtain path w1 where
    path: "BuildState_get_platform_path e p = Inr path"
    and sv: "BuildState_save_to_json path w = (Inr (), w1)"
    and rest: "for_each (\<lambda>platform.
             bind (lift (BuildState_get_platform_path e platform)) BuildState_save_to_json)
             ps w1 = (Inr (), w')"
    by (cases "BuildState_get_platform_path e p") (auto simp: bind_eq_Inr raise_def)
  from get_platform_path_child [OF path] obtain dir where
    dir: "dir \<noteq> []" and pd: "path = dir @ CHR ''/'' # ''ufw_build_state.json''"
    by blast
  from save_to_json_child [OF sv [unfolded pd] proper_state_file_name dir]
  obtain m where g1: "grows ?c (fs w) (fs w1)" and c1: "cwd w1 = cwd w"
    and b1: "build_state w1 = build_state w"
    and f1: "stat_node w1 path = Some (File m ?c)"
    unfolding pd by blast
  from Cons.IH [OF rest]
  have g2: "grows ?c (fs w1) (fs w')" and c2: "cwd w' = cwd w1"
    and b2: "build_state w' = build_state w1"
    and f2: "\<forall>p\<in>set ps. \<exists>path m. BuildState_get_platform_path e p = Inr path
              \<and> stat_node w' path = Some (File m ?c)"
    unfolding b1 by simp_all
  from stat_node_grows [OF f1 g2 c2] path
  have "\<exists>path m. BuildState_get_platform_path e p = Inr path
              \<and> stat_node w' path = Some (File m ?c)"
    by blast
  with f2 grows_trans [OF g1 g2] c1 c2 b1 b2 show ?case by simp
qed

text \<open>
  When \<^verbatim>\<open>persist\<close> returns, the state file of every platform of the state holds the state.
\<close>

lemma BuildState_persist_files:
  assumes "BuildState_persist e w = (Inr (), w')"
    and "fmlookup (build_state w) ''platforms'' = Some (JArr ps)"
  shows "cwd w' = cwd w \<and> build_state w' = build_state w
       \<and> (\<forall>p\<in>set ps. \<exists>path m. BuildState_get_platform_path e p = Inr path
              \<and> stat_node w' path = Some (File m (Json (JObj (build_state w)))))"
proof -
  from assms have "for_each (\<lambda>platform.
             bind (lift (BuildState_get_platform_path e platform)) BuildState_save_to_json)
             ps w = (Inr (), w')"
    by (simp add: BuildState_persist_def getattr_def py_iter_def)
  from persist_loop [OF this] show ?thesis by simp
qed

subsection \<open>The state files after \<^verbatim>\<open>persist\<close>\<close>

lemma map_io_const:
  assumes "\<And>x. x \<in> set xs \<Longrightarrow> f x w = (Inr y, w)"
  shows "map_io f xs w = (Inr (map (\<lambda>_. y) xs), w)"
  using assms by (induction xs) (simp_all add: bind_def ret_def)

lemma load_from_json_written:
  "stat_node w path = Some (File m (Json j)) \<Longrightarrow> BuildState_load_from_json path w = (Inr j, w)"
  by (simp add: BuildState_load_from_json_def os_path_exists_def bind_def gets_def
      read_file_def lift_def json_loads_def)

lemma load_dicts_written:
  assumes "fmlookup (build_state w) ''platforms'' = Some (JArr ps)"
    and "\<forall>p\<in>set ps. \<exists>path m. BuildState_get_platform_path e p = Inr path
            \<and> stat_node w path = Some (File m (Json j))"
  shows "load_dicts e w = (Inr (map (\<lambda>_. j) ps), w)"
proof -
  have each: "bind (lift (BuildState_get_platform_path e p)) BuildState_load_from_json w
              = (Inr j, w)" if "p \<in> set ps" for p
    using assms(2) that by (auto simp: load_from_json_written)
  have "map_io (\<lambda>platform.
          bind (lift (BuildState_get_platform_path e platform)) BuildState_load_from_json)
          ps w = (Inr (map (\<lambda>_. j) ps), w)"
    by (rule map_io_const [where xs = ps and w = w and y = j and f = "\<lambda>platform.
          bind (lift (BuildState_get_platform_path e platform)) BuildState_load_from_json"])
      (rule each)
  then show ?thesis
    by (simp add: load_dicts_def assms(1) getattr_def py_iter_def)
qed

lemma butlast_replicate_Suc: "butlast (replicate (Suc k) y) = replicate k y"
  by (induction k) simp_all

lemma const_list_agree:
  assumes "map (\<lambda>_. y) xs = d0 # ds"
  shows "d0 = y \<and> ds = butlast (d0 # ds)"
proof -
  from assms have "replicate (length xs) y = d0 # ds" by (simp add: map_replicate_const)
  then obtain k where "d0 = y" and "ds = replicate k y"
    by (cases "length xs") auto
  moreover have "butlast (y # replicate k y) = replicate k y"
    using butlast_replicate_Suc [of k y] by (simp only: replicate_Suc)
  ultimately show ?thesis by (simp only:)
qed

lemma stat_node_build_state [simp]: "stat_node (w\<lparr>build_state := b\<rparr>) s = stat_node w s"
  by (simp add: stat_node_def stat_path_def start_dir_def cong: option.case_cong)

lemma stat_node_log [simp]: "stat_node (w\<lparr>log := l\<rparr>) s = stat_node w s"
  by (simp add: stat_node_def cong: option.case_cong)

text \<open>
  The \<^verbatim>\<open>BuildState()\<close> of an invocation that finds the same state in the file of every
  supported platform.
\<close>

lemma BuildState_init_written:
  assumes sp: "environ e ''SUPPORTED_PLATFORMS'' = Inr supported"
    and files: "\<forall>p\<in>set (map JStr (py_split '' '' supported)).
        \<exists>path m. BuildState_get_platform_path e p = Inr path
          \<and> stat_node w path = Some (File m (Json (JObj st)))"
  shows "BuildState_init e w =
           (Inr (), w\<lparr>build_state := fmadd (reset_dict supported
              (fmupd ''platforms'' (JArr (map JStr (py_split '' '' supported))) fmempty)) st\<rparr>)"
proof -
  let ?ps = "map JStr (py_split '' '' supported)"
  let ?w0 = "w\<lparr>build_state := fmupd ''platforms'' (JArr ?ps) fmempty\<rparr>"
  let ?w1 = "?w0\<lparr>build_state := reset_dict supported (build_state ?w0)\<rparr>"
  have "fmlookup (build_state ?w1) ''platforms'' = Some (JArr ?ps)"
    by (simp add: reset_dict_platforms)
  moreover from files have "\<forall>p\<in>set ?ps. \<exists>path m. BuildState_get_platform_path e p = Inr path
          \<and> stat_node ?w1 path = Some (File m (Json (JObj st)))"
    by simp
  ultimately have ld: "load_dicts e ?w1 = (Inr (map (\<lambda>_. JObj st) ?ps), ?w1)"
    by (rule load_dicts_written)
  obtain d0 ds where ds: "map (\<lambda>_. JObj st) ?ps = d0 # ds"
    using py_split_nonempty [of "'' ''" supported] by (cases "py_split '' '' supported") auto
  note agree = const_list_agree [OF ds]
  note d0 = agree [THEN conjunct1] and eq = agree [THEN conjunct2]
  from ld ds have "fst (load_dicts e ?w1) = Inr (d0 # ds)" by simp
  note loaded = BuildState_reload_loaded [OF sp this]
  from d0 have "d0 \<noteq> JNull" by simp
  with eq have cond: "ds = butlast (d0 # ds) \<and> d0 \<noteq> JNull" by (rule conjI)
  have "BuildState_reload e ?w0
        = (Inr (), ?w0\<lparr>build_state := fmadd (reset_dict supported (build_state ?w0)) st\<rparr>)"
    unfolding loaded if_P [OF cond] by (simp only: d0 json.case)
  then show ?thesis by (simp add: BuildState_init_def sp)
qed

lemma finalised_reload:
  "fmadd (reset_dict s (fmupd ''platforms'' ps fmempty))
     (fmupd ''last_completion'' t (reset_dict s st))
   = fmupd ''last_completion'' t (reset_dict s st)"
  by (rule fmap_ext) (auto simp: reset_dict_def dest: fmdom_notD)

subsection \<open>The end of a run\<close>

text \<open>The last steps of the master leave a reset state stamped with the current time.\<close>

lemma finish_master_state:
  assumes m: "is_master e = Inr True"
    and f: "finish_master e p w = (Inr (), w')"
  shows "\<exists>supported st. environ e ''SUPPORTED_PLATFORMS'' = Inr supported
           \<and> build_state w'
               = fmupd ''last_completion'' (JNum (now w')) (reset_dict supported st)"
proof -
  from f m obtain w1 w2 where r: "BuildState_reset e w1 = (Inr (), w2)"
    and w': "w' = w2\<lparr>build_state := fmupd ''last_completion'' (JNum (now w2)) (build_state w2)\<rparr>"
    by (auto simp: finish_master_def bind_eq_Inr modify_def)
  from r obtain supported where "environ e ''SUPPORTED_PLATFORMS'' = Inr supported"
    and "build_state w2 = reset_dict supported (build_state w1)"
    by (auto simp: BuildState_reset_eq split: sum.splits)
  with w' show ?thesis by auto
qed

lemma run_build_finalised:
  assumes p: "Project_init e pd = Inr p"
    and m: "is_master e = Inr True"
    and n: "rebuild_needed cfg e p w = (Inr True, w1)"
    and r: "run_build x cfg e pd w = (Inr (), w')"
  shows "\<exists>supported st. environ e ''SUPPORTED_PLATFORMS'' = Inr supported
           \<and> build_state w'
               = fmupd ''last_completion'' (JNum (now w')) (reset_dict supported st)"
proof -
  from r p n obtain w2 where "finish_master e p w2 = (Inr (), w')"
    by (auto simp: run_build_def bind_eq_Inr)
  with m show ?thesis by (rule finish_master_state)
qed

text \<open>An exception that leaves \<^verbatim>\<open>run_build\<close> is the only way to the reset before the last
  \<^verbatim>\<open>persist\<close>.\<close>

lemma try_run_build_exception:
  assumes "environ e ''SUPPORTED_PLATFORMS'' = Inr supported"
    and "run_build x cfg' e pd w1 = (Inl err, w2)"
  shows "try_run_build x cfg cfg' e pd w1
         = (1, w2\<lparr>build_state := reset_dict supported (build_state w2),
                  log := log w2 @ [(ERROR, ''Build failed'')]\<rparr>)"
  using assms by (simp add: try_run_build_def BuildState_reset_eq log_error_def modify_def)

lemma try_run_build_returned:
  assumes "run_build x cfg' e pd w1 = (Inr (), w2)"
  shows "build_state (snd (try_run_build x cfg cfg' e pd w1)) = build_state w2"
  using assms by (simp add: try_run_build_def log_warn_def log_info_def modify_def)

text \<open>
  C10: when \<^verbatim>\<open>run_build\<close> has run the pipeline to its end on the master, warnings were
  issued and \<^verbatim>\<open>config_fail_on_warnings\<close> is set, the script persists the state that
  \<^verbatim>\<open>run_build\<close> left, which is the finalised one (slave fields reset, \<^verbatim>\<open>last_completion\<close>
  the time of the build), not a fresh one, and exits with code 1 (unless the last
  \<^verbatim>\<open>persist\<close> itself raises). When it exits with 1, the state file of every supported
  platform holds that finalised state, and the \<^verbatim>\<open>BuildState()\<close> of the next invocation
  loads it from the files: its entry guard compares with the time of this build.
\<close>

theorem C10_warning_failure_persists_finalised_state:
  assumes "environ e ''PLATFORM_NAME'' = Inr platform"
    and "BuildState_init e (w0\<lparr>issued_warnings := False\<rparr>) = (Inr (), w1)"
    and "is_master e = Inr True"
    and "substitute_top subst cfg = Inr cfg'"
    and "Project_init e pd = Inr p"
    and "rebuild_needed cfg' e p w1 = (Inr True, w1')"
    and "run_build x cfg' e pd w1 = (Inr (), w2)"
    and "issued_warnings w2"
    and "config_fail_on_warnings cfg"
  shows "main x subst cfg e pd w0
         = (case BuildState_persist e
                   (w2\<lparr>log := log w2 @ [(WARNING, ''Build completed with warnings'')]\<rparr>) of
              (Inl err, w3) \<Rightarrow> (Uncaught err, w3)
            | (Inr u, w3) \<Rightarrow> (Exit 1, w3))
       \<and> build_state (snd (main x subst cfg e pd w0)) = build_state w2
       \<and> fmlookup (build_state w2) ''last_completion'' = Some (JNum (now w2))
       \<and> fmlookup (build_state w2) ''slave_platform'' = Some JNull
       \<and> fmlookup (build_state w2) ''slave_architectures'' = Some (JArr [])
       \<and> fmlookup (build_state w2) ''slave_linked_archive_paths'' = Some (JArr [])
       \<and> fmlookup (build_state w2) ''slave_built_fw_path'' = Some JNull
       \<and> fmlookup (build_state w2) ''slave_built_embedded_fw_path'' = Some JNull
       \<and> (\<exists>supported. environ e ''SUPPORTED_PLATFORMS'' = Inr supported
            \<and> (fst (main x subst cfg e pd w0) = Exit 1 \<longrightarrow>
                 (\<forall>name\<in>set (py_split '' '' supported).
                    \<exists>path. BuildState_get_platform_path e (JStr name) = Inr path
                      \<and> read_file path (snd (main x subst cfg e pd w0))
                          = (Inr (Json (JObj (build_state w2))),
                             snd (main x subst cfg e pd w0)))
               \<and> fst (BuildState_init e (snd (main x subst cfg e pd w0))) = Inr ()
               \<and> build_state (snd (BuildState_init e (snd (main x subst cfg e pd w0))))
                   = build_state w2))"
proof -
  let ?w4 = "w2\<lparr>log := log w2 @ [(WARNING, ''Build completed with warnings'')]\<rparr>"
  let ?w5 = "snd (main x subst cfg e pd w0)"
  let ?c = "Json (JObj (build_state w2))"
  have t: "try_run_build x cfg cfg' e pd w1 = (1, ?w4)"
    using assms(7-9) by (simp add: try_run_build_def log_warn_def modify_def)
  have main: "main x subst cfg e pd w0
         = (case BuildState_persist e ?w4 of
              (Inl err, w3) \<Rightarrow> (Uncaught err, w3)
            | (Inr u, w3) \<Rightarrow> (Exit 1, w3))"
    using assms(1-4) t by (simp add: main_def)
  have "build_state (snd (BuildState_persist e ?w4)) = build_state ?w4"
    using keeps_persist(1) [of e] by (simp add: keeps_def)
  then have kept: "build_state ?w5 = build_state w2"
    by (cases "BuildState_persist e ?w4") (auto simp: main split: sum.splits)
  from run_build_finalised [OF assms(5) assms(3) assms(6) assms(7)]
  obtain supported st where sp: "environ e ''SUPPORTED_PLATFORMS'' = Inr supported"
    and fin: "build_state w2
              = fmupd ''last_completion'' (JNum (now w2)) (reset_dict supported st)"
    by blast
  from fin have fields: "fmlookup (build_state w2) ''last_completion'' = Some (JNum (now w2))
       \<and> fmlookup (build_state w2) ''slave_platform'' = Some JNull
       \<and> fmlookup (build_state w2) ''slave_architectures'' = Some (JArr [])
       \<and> fmlookup (build_state w2) ''slave_linked_archive_paths'' = Some (JArr [])
       \<and> fmlookup (build_state w2) ''slave_built_fw_path'' = Some JNull
       \<and> fmlookup (build_state w2) ''slave_built_embedded_fw_path'' = Some JNull"
    by (simp add: reset_dict_def)
  from fin have pl: "fmlookup (build_state ?w4) ''platforms''
                     = Some (JArr (map JStr (py_split '' '' supported)))"
    by (simp add: reset_dict_def)
  have files: "(\<forall>name\<in>set (py_split '' '' supported).
                    \<exists>path. BuildState_get_platform_path e (JStr name) = Inr path
                      \<and> read_file path ?w5 = (Inr ?c, ?w5))
               \<and> fst (BuildState_init e ?w5) = Inr ()
               \<and> build_state (snd (BuildState_init e ?w5)) = build_state w2"
    if ex: "fst (main x subst cfg e pd w0) = Exit 1"
  proof -
    from ex main obtain w3 where ps: "BuildState_persist e ?w4 = (Inr (), w3)"
      by (cases "BuildState_persist e ?w4") (auto split: sum.splits)
    with main have w5: "?w5 = w3" by simp
    from BuildState_persist_files [OF ps pl]
    have written: "\<forall>p\<in>set (map JStr (py_split '' '' supported)).
        \<exists>path m. BuildState_get_platform_path e p = Inr path
          \<and> stat_node w3 path = Some (File m ?c)"
      by simp
    then have "\<forall>name\<in>set (py_split '' '' supported).
                    \<exists>path. BuildState_get_platform_path e (JStr name) = Inr path
                      \<and> read_file path w3 = (Inr ?c, w3)"
      by (fastforce simp: read_file_def)
    moreover from BuildState_init_written [OF sp written]
    have "BuildState_init e w3 = (Inr (), w3\<lparr>build_state := build_state w2\<rparr>)"
      by (simp only: fin finalised_reload)
    then have "fst (BuildState_init e w3) = Inr ()
               \<and> build_state (snd (BuildState_init e w3)) = build_state w2"
      by simp
    ultimately show ?thesis unfolding w5 by simp
  qed
  from main kept fields sp files show ?thesis by blast
qed

lemma example_rebuild_needed:
  "fst (rebuild_needed example_cfg example_env example_project
          (build_world\<lparr>build_state := old_state\<rparr>)) = Inr True"
  by code_simp

lemma example_substitute_top: "substitute_top Inr example_cfg = Inr example_cfg"
  by (simp add: substitute_top_def example_cfg_def)

lemma example_state_file:
  "py_split '' '' ''ios sim'' = [''ios'', ''sim'']"
  "BuildState_get_platform_path example_env (JStr ''ios'')
   = Inr ''/t/R-ios/F.build/Objects-n/ufw_build_state.json''"
  by code_simp+

theorem C10_warning_failure_persists_finalised_state_witness:
  "fst (main ext_slave Inr example_cfg example_env example_pd build_world) = Exit 1
   \<and> fmlookup (build_state (snd (main ext_slave Inr example_cfg example_env example_pd
        build_world))) ''last_completion'' = Some (JNum 21)
   \<and> fmlookup (build_state (snd (main ext_slave Inr example_cfg example_env example_pd
        build_world))) ''slave_platform'' = Some JNull
   \<and> fst (read_file ''/t/R-ios/F.build/Objects-n/ufw_build_state.json''
        (snd (main ext_slave Inr example_cfg example_env example_pd build_world)))
      = Inr (Json (JObj (build_state (snd (main ext_slave Inr example_cfg example_env
          example_pd build_world)))))
   \<and> fmlookup (build_state (snd (BuildState_init example_env
        (snd (main ext_slave Inr example_cfg example_env example_pd build_world)))))
        ''last_completion'' = Some (JNum 21)"
proof -
  let ?w1 = "build_world\<lparr>build_state := old_state\<rparr>"
  let ?w2 = "snd (run_build ext_slave example_cfg example_env example_pd ?w1)"
  let ?m = "main ext_slave Inr example_cfg example_env example_pd build_world"
  have n: "rebuild_needed example_cfg example_env example_project ?w1
           = (Inr True, snd (rebuild_needed example_cfg example_env example_project ?w1))"
    using example_rebuild_needed
    by (cases "rebuild_needed example_cfg example_env example_project ?w1") simp
  have r: "run_build ext_slave example_cfg example_env example_pd ?w1 = (Inr (), ?w2)"
    and i: "issued_warnings ?w2" and t: "now ?w2 = 21"
    and s: "fst (BuildState_persist example_env
                   (?w2\<lparr>log := log ?w2 @ [(WARNING, ''Build completed with warnings'')]\<rparr>))
            = Inr ()"
    using example_run_build by (simp_all split: prod.splits)
  have f: "config_fail_on_warnings example_cfg" by (simp add: example_cfg_def)
  obtain w3 where p: "BuildState_persist example_env
      (?w2\<lparr>log := log ?w2 @ [(WARNING, ''Build completed with warnings'')]\<rparr>) = (Inr (), w3)"
    using s
    by (cases "BuildState_persist example_env
      (?w2\<lparr>log := log ?w2 @ [(WARNING, ''Build completed with warnings'')]\<rparr>)") auto
  note c10 = C10_warning_failure_persists_finalised_state [OF example_env_platform example_init
      example_is_master example_substitute_top example_Project_init n r i f]
  from c10 [THEN conjunct1] have m: "?m = (Exit 1, w3)" by (simp add: p)
  note rest = c10 [THEN conjunct2]
  note b = rest [THEN conjunct1]
  note l = rest [THEN conjunct2, THEN conjunct1]
  note sl = rest [THEN conjunct2, THEN conjunct2, THEN conjunct1]
  from rest [THEN conjunct2, THEN conjunct2, THEN conjunct2, THEN conjunct2, THEN conjunct2,
      THEN conjunct2, THEN conjunct2]
  obtain supported where sp: "environ example_env ''SUPPORTED_PLATFORMS'' = Inr supported"
    and after: "fst ?m = Exit 1 \<longrightarrow>
        (\<forall>name\<in>set (py_split '' '' supported).
           \<exists>path. BuildState_get_platform_path example_env (JStr name) = Inr path
             \<and> read_file path (snd ?m) = (Inr (Json (JObj (build_state ?w2))), snd ?m))
        \<and> fst (BuildState_init example_env (snd ?m)) = Inr ()
        \<and> build_state (snd (BuildState_init example_env (snd ?m))) = build_state ?w2"
    by blast
  from sp example_env_supported have supported: "supported = ''ios sim''" by simp
  from m have "fst ?m = Exit 1" by simp
  with after have files: "\<forall>name\<in>set (py_split '' '' supported).
           \<exists>path. BuildState_get_platform_path example_env (JStr name) = Inr path
             \<and> read_file path (snd ?m) = (Inr (Json (JObj (build_state ?w2))), snd ?m)"
    and nxt: "build_state (snd (BuildState_init example_env (snd ?m))) = build_state ?w2"
    by blast+
  from files have "\<exists>path. BuildState_get_platform_path example_env (JStr ''ios'') = Inr path
             \<and> read_file path (snd ?m) = (Inr (Json (JObj (build_state ?w2))), snd ?m)"
    by (simp add: supported example_state_file(1))
  then obtain path where
    gp: "BuildState_get_platform_path example_env (JStr ''ios'') = Inr path"
    and rd0: "read_file path (snd ?m) = (Inr (Json (JObj (build_state ?w2))), snd ?m)"
    by blast
  from gp have "path = ''/t/R-ios/F.build/Objects-n/ufw_build_state.json''"
    by (simp add: example_state_file(2))
  with rd0 have rd: "read_file ''/t/R-ios/F.build/Objects-n/ufw_build_state.json'' (snd ?m)
                   = (Inr (Json (JObj (build_state ?w2))), snd ?m)"
    by simp
  from m have one: "fst ?m = Exit 1" by simp
  from b l t have two: "fmlookup (build_state (snd ?m)) ''last_completion'' = Some (JNum 21)"
    by simp
  from b sl have three: "fmlookup (build_state (snd ?m)) ''slave_platform'' = Some JNull"
    by simp
  from rd b have four: "fst (read_file ''/t/R-ios/F.build/Objects-n/ufw_build_state.json''
        (snd ?m)) = Inr (Json (JObj (build_state (snd ?m))))"
    by simp
  from nxt l t have five: "fmlookup (build_state (snd (BuildState_init example_env (snd ?m))))
        ''last_completion'' = Some (JNum 21)"
    by simp
  from one two three four five show ?thesis by (intro conjI)
qed


subsection \<open>The symbolic links of the framework\<close>

lemma attempt_symlink_eq:
  "attempt_symlink link_path link_to w =
     (if \<not> os_path_exists w (os_path_abspath w (link_path @ ''/../'' @ link_to))
      then (Inl OSError, w)
      else if os_path_exists w link_path then (Inr (), w)
      else os_symlink link_to link_path
             (w\<lparr>log := log w @ [(INFO, ''Symlink '' @ link_path @ '' -> '' @ link_to)]\<rparr>))"
  by (simp add: attempt_symlink_def bind_def os_stat_def gets_def ret_def log_info_def
      modify_def)

lemma os_symlink_extends:
  assumes "os_symlink link_to link_path w = (Inr (), w')"
  shows "\<exists>p. node_at (fs w) p = None \<and> fs w' = fs w @ [(p, Link link_to)]"
  using assms by (auto simp: os_symlink_def split: option.splits)

lemma attempt_symlink_valid:
  "link_valid w link_path link_to \<Longrightarrow> attempt_symlink link_path link_to w = (Inr (), w)"
  by (simp add: attempt_symlink_eq link_valid_def)

lemma bind_attempt_symlink_valid:
  "link_valid w link_path link_to \<Longrightarrow> bind (attempt_symlink link_path link_to) k w = k () w"
  by (simp add: bind_def attempt_symlink_valid)

lemma bind_attempt_symlink_fails:
  "\<not> os_path_exists w (os_path_abspath w (link_path @ ''/../'' @ link_to))
   \<Longrightarrow> bind (attempt_symlink link_path link_to) k w = (Inl OSError, w)"
  by (simp add: bind_def attempt_symlink_eq)

lemma add_symlinks_valid:
  assumes "environ e ''FRAMEWORK_VERSION'' = Inr framework_version"
    and "environ e ''EXECUTABLE_NAME'' = Inr executable_name"
    and "framework_links_valid framework_version executable_name p w"
  shows "add_symlinks_to_framework e p w = (Inr (), w)"
  using assms
  by (simp add: add_symlinks_to_framework_def framework_links_valid_def Let_def
      bind_attempt_symlink_valid attempt_symlink_valid split: if_splits)

text \<open>
  C9: \<^verbatim>\<open>attempt_symlink\<close> succeeds only when the target path it checks exists; then it does
  nothing when the link path exists, and otherwise only adds an entry, so nothing that
  exists is overwritten. When the target does not exist it fails with \<^verbatim>\<open>OSError\<close> and
  leaves the world as it was, so it fails again the next time. When the links of the
  framework are valid, as after a run that made them, \<^verbatim>\<open>add_symlinks_to_framework\<close>
  returns without an error and without a change; when the target of the first link is
  missing it fails with \<^verbatim>\<open>OSError\<close>, again without a change.
\<close>

theorem C9_symlinks_only_when_absent_and_valid:
  "(attempt_symlink link_path link_to w = (Inr (), w') \<longrightarrow>
      os_path_exists w (os_path_abspath w (link_path @ ''/../'' @ link_to))
      \<and> (os_path_exists w link_path \<longrightarrow> w' = w)
      \<and> (\<forall>q n. map_of (fs w) q = Some n \<longrightarrow> map_of (fs w') q = Some n))
   \<and> (\<not> os_path_exists w (os_path_abspath w (link_path @ ''/../'' @ link_to)) \<longrightarrow>
        attempt_symlink link_path link_to w = (Inl OSError, w))
   \<and> (environ e ''FRAMEWORK_VERSION'' = Inr framework_version
      \<and> environ e ''EXECUTABLE_NAME'' = Inr executable_name
      \<and> framework_links_valid framework_version executable_name p w \<longrightarrow>
        add_symlinks_to_framework e p w = (Inr (), w))
   \<and> (environ e ''FRAMEWORK_VERSION'' = Inr framework_version
      \<and> \<not> os_path_exists w (os_path_abspath w
             ((local_built_fw_path p @ ''/'' @ ''Versions/Current'') @ ''/../''
              @ framework_version)) \<longrightarrow>
        add_symlinks_to_framework e p w = (Inl OSError, w))"
proof (intro conjI impI)
  assume a: "attempt_symlink link_path link_to w = (Inr (), w')"
  then show t: "os_path_exists w (os_path_abspath w (link_path @ ''/../'' @ link_to))"
    by (auto simp: attempt_symlink_eq split: if_splits)
  show "w' = w" if "os_path_exists w link_path"
    using a t that by (simp add: attempt_symlink_eq)
  show "\<forall>q n. map_of (fs w) q = Some n \<longrightarrow> map_of (fs w') q = Some n"
  proof (cases "os_path_exists w link_path")
    case True
    with a t show ?thesis by (simp add: attempt_symlink_eq)
  next
    case False
    with a t have "os_symlink link_to link_path
        (w\<lparr>log := log w @ [(INFO, ''Symlink '' @ link_path @ '' -> '' @ link_to)]\<rparr>)
        = (Inr (), w')"
      by (simp add: attempt_symlink_eq)
    from os_symlink_extends [OF this] show ?thesis by auto
  qed
next
  assume "\<not> os_path_exists w (os_path_abspath w (link_path @ ''/../'' @ link_to))"
  then show "attempt_symlink link_path link_to w = (Inl OSError, w)"
    by (simp add: attempt_symlink_eq)
next
  assume "environ e ''FRAMEWORK_VERSION'' = Inr framework_version
      \<and> environ e ''EXECUTABLE_NAME'' = Inr executable_name
      \<and> framework_links_valid framework_version executable_name p w"
  then show "add_symlinks_to_framework e p w = (Inr (), w)"
    by (simp add: add_symlinks_valid)
next
  assume "environ e ''FRAMEWORK_VERSION'' = Inr framework_version
      \<and> \<not> os_path_exists w (os_path_abspath w
             ((local_built_fw_path p @ ''/'' @ ''Versions/Current'') @ ''/../''
              @ framework_version))"
  then show "add_symlinks_to_framework e p w = (Inl OSError, w)"
    by (simp add: add_symlinks_to_framework_def Let_def bind_attempt_symlink_fails)
qed

lemma example_env_framework:
  "environ example_env ''FRAMEWORK_VERSION'' = Inr ''A''"
  "environ example_env ''EXECUTABLE_NAME'' = Inr ''F''"
  by code_simp+

lemma framework_world_first_run:
  "fst (add_symlinks_to_framework example_env example_project framework_world) = Inr ()
   \<and> fs (snd (add_symlinks_to_framework example_env example_project framework_world))
       = fs framework_world
         @ [([''b'', ''F.framework'', ''Versions'', ''Current''], Link ''A''),
            ([''b'', ''F.framework'', ''Headers''], Link ''Versions/Current/Headers''),
            ([''b'', ''F.framework'', ''F''], Link ''Versions/Current/F'')]
   \<and> framework_links_valid ''A'' ''F'' example_project
        (snd (add_symlinks_to_framework example_env example_project framework_world))"
  by code_simp

lemma empty_world_no_target:
  "\<not> os_path_exists empty_world (os_path_abspath empty_world
       ((local_built_fw_path example_project @ ''/'' @ ''Versions/Current'') @ ''/../'' @ ''A''))"
  by code_simp

theorem C9_symlinks_only_when_absent_and_valid_witness:
  "fst (add_symlinks_to_framework example_env example_project framework_world) = Inr ()
   \<and> add_symlinks_to_framework example_env example_project
        (snd (add_symlinks_to_framework example_env example_project framework_world))
       = (Inr (), snd (add_symlinks_to_framework example_env example_project framework_world))
   \<and> add_symlinks_to_framework example_env example_project empty_world
       = (Inl OSError, empty_world)
   \<and> add_symlinks_to_framework example_env example_project
        (snd (add_symlinks_to_framework example_env example_project empty_world))
       = (Inl OSError, empty_world)"
proof -
  let ?w1 = "snd (add_symlinks_to_framework example_env example_project framework_world)"
  have second: "add_symlinks_to_framework example_env example_project ?w1 = (Inr (), ?w1)"
    using C9_symlinks_only_when_absent_and_valid
      [of _ _ ?w1 _ example_env "''A''" "''F''" example_project]
      example_env_framework framework_world_first_run
    by blast
  have fail: "add_symlinks_to_framework example_env example_project empty_world
              = (Inl OSError, empty_world)"
    using C9_symlinks_only_when_absent_and_valid
      [of _ _ empty_world _ example_env "''A''" _ example_project]
      example_env_framework(1) empty_world_no_target
    by blast
  from second fail framework_world_first_run show ?thesis by simp
qed

subsection \<open>Pruning the headers directory\<close>









subsection \<open>What the prune step removes\<close>


















end
